theory Spec2Isabelle
  imports Main "HOL-Library.Word" "HOL-Library.Sublist" "HOL-Library.Monad_Syntax"
begin

section \<open>Data model of gpu-manager\<close>

text \<open>
  The C types of \<^verbatim>\<open>share/hybrid/gpu-manager.c\<close>. An \<^verbatim>\<open>unsigned int\<close>, an \<^verbatim>\<open>int\<close> and the
  enumeration \<^verbatim>\<open>vendor\<close> are 32-bit words; a signed field is read with \<open>sint\<close>.
\<close>

type_synonym c_uint = "32 word"
type_synonym c_int = "32 word"

definition AMD :: c_uint where "AMD = 0x1002"
definition INTEL :: c_uint where "INTEL = 0x8086"
definition NVIDIA :: c_uint where "NVIDIA = 0x10DE"

datatype prime_mode_settings = ON | OFF | ONDEMAND

datatype amdgpu_pro_px_action = MODE_POWERSAVING | MODE_PERFORMANCE | RESET | ISPX

record device =
  boot_vga :: c_int
  vendor_id :: c_uint
  device_id :: c_uint
  domain :: c_uint
  bus :: c_uint
  dev :: c_uint
  func :: c_uint
  has_connected_outputs :: c_int

definition MAX_NR_CARDS :: int where "MAX_NR_CARDS = 10"

text \<open>
  \<^verbatim>\<open>struct gpus\<close>: an array of \<^verbatim>\<open>MAX_NR_CARDS\<close> pointers, \<open>None\<close> being the NULL pointer,
  and the counter \<^verbatim>\<open>nr_cards\<close>.
\<close>

record gpus =
  cards :: "device option list"
  nr_cards :: int

text \<open>The initialiser \<^verbatim>\<open>struct gpus g = {0}\<close> of \<^verbatim>\<open>main\<close>.\<close>

definition gpus_zero :: gpus where
  "gpus_zero = \<lparr>cards = replicate 10 None, nr_cards = 0\<rparr>"

text \<open>
  \<^verbatim>\<open>gpus->cards[i]-><field>\<close>: the read of a slot outside the array and the dereference of
  a NULL slot are undefined behaviour in C; both are the value \<open>None\<close> here, and every
  function that performs such an access returns \<open>None\<close> in its turn.
\<close>

definition card_deref :: "gpus \<Rightarrow> int \<Rightarrow> device option" where
  "card_deref g i =
     (if 0 \<le> i \<and> i < MAX_NR_CARDS \<and> nat i < length (cards g) then cards g ! nat i else None)"

text \<open>
  \<^verbatim>\<open>gpus->cards[i] = p\<close>: a store past the end of the array is undefined behaviour, the
  value \<open>None\<close>.
\<close>

definition card_store :: "gpus \<Rightarrow> int \<Rightarrow> device option \<Rightarrow> gpus option" where
  "card_store g i p =
     (if 0 \<le> i \<and> i < MAX_NR_CARDS \<and> nat i < length (cards g)
      then Some (g\<lparr>cards := (cards g)[nat i := p]\<rparr>) else None)"

section \<open>Comparing two inventories\<close>

text \<open>The condition of the \<^verbatim>\<open>if\<close> inside the loop of \<^verbatim>\<open>has_system_changed\<close>.\<close>

definition card_differs :: "device \<Rightarrow> device \<Rightarrow> bool" where
  "card_differs p c \<longleftrightarrow>
     boot_vga p \<noteq> boot_vga c \<or> vendor_id p \<noteq> vendor_id c \<or> device_id p \<noteq> device_id c \<or>
     domain p \<noteq> domain c \<or> bus p \<noteq> bus c \<or> dev p \<noteq> dev c \<or> func p \<noteq> func c"

text \<open>The loop \<^verbatim>\<open>for (int i = 0; i < prev->nr_cards; i++)\<close>, entered at index \<open>i\<close>.\<close>

function has_system_changed_from :: "gpus \<Rightarrow> gpus \<Rightarrow> int \<Rightarrow> bool option" where
  "has_system_changed_from prev current i =
     (if i < nr_cards prev then
        (case card_deref prev i of
           None \<Rightarrow> None
         | Some p \<Rightarrow>
             (case card_deref current i of
                None \<Rightarrow> None
              | Some c \<Rightarrow>
                  if card_differs p c then Some True
                  else has_system_changed_from prev current (i + 1)))
      else Some False)"
  by pat_completeness auto
termination
  by (relation "measure (\<lambda>(prev, current, i). nat (nr_cards prev - i))") auto

declare has_system_changed_from.simps [simp del]

definition has_system_changed :: "gpus \<Rightarrow> gpus \<Rightarrow> bool option" where
  "has_system_changed prev current =
     (if nr_cards prev \<noteq> nr_cards current then Some True
      else has_system_changed_from prev current 0)"

section \<open>C strings, \<^verbatim>\<open>fgets\<close>, \<^verbatim>\<open>printf\<close> and \<^verbatim>\<open>sscanf\<close>\<close>

definition newline :: char where "newline = CHR 0x0A"
definition NUL :: char where "NUL = CHR 0x00"

text \<open>A buffer read as a C string ends at its first NUL byte.\<close>

definition c_str :: "string \<Rightarrow> string" where
  "c_str s = takeWhile (\<lambda>c. c \<noteq> NUL) s"

definition isspace :: "char \<Rightarrow> bool" where
  "isspace c \<longleftrightarrow> (let n = (of_char c :: nat) in n = 32 \<or> (9 \<le> n \<and> n \<le> 13))"

definition isdigit :: "char \<Rightarrow> bool" where
  "isdigit c \<longleftrightarrow> (let n = (of_char c :: nat) in 48 \<le> n \<and> n \<le> 57)"

definition isxdigit :: "char \<Rightarrow> bool" where
  "isxdigit c \<longleftrightarrow>
     (let n = (of_char c :: nat) in (48 \<le> n \<and> n \<le> 57) \<or> (97 \<le> n \<and> n \<le> 102) \<or> (65 \<le> n \<and> n \<le> 70))"

definition toupper :: "char \<Rightarrow> char" where
  "toupper c = (let n = (of_char c :: nat) in if 97 \<le> n \<and> n \<le> 122 then char_of (n - 32) else c)"

definition digit_val :: "char \<Rightarrow> nat" where
  "digit_val c =
     (let n = (of_char c :: nat) in
      if 48 \<le> n \<and> n \<le> 57 then n - 48 else if 97 \<le> n \<and> n \<le> 102 then n - 87 else n - 55)"

definition digit_char :: "nat \<Rightarrow> char" where
  "digit_char d = ''0123456789abcdef'' ! d"

text \<open>
  \<^verbatim>\<open>fgets(line, n, file)\<close> on the unread rest of a stream: at most \<open>n - 1\<close> characters, up to
  and including the first newline. \<open>fgets_split k s\<close> is the line read and the rest, for
  \<open>k = n - 1\<close>.
\<close>

fun fgets_split :: "nat \<Rightarrow> string \<Rightarrow> string \<times> string" where
  "fgets_split k [] = ([], [])"
| "fgets_split k (c # cs) =
     (if k = 0 then ([], c # cs)
      else if c = newline then ([c], cs)
      else (case fgets_split (k - 1) cs of (l, r) \<Rightarrow> (c # l, r)))"

lemma fgets_split_length: "length (snd (fgets_split k s)) \<le> length s"
  by (induction k s rule: fgets_split.induct) (auto split: prod.splits)

text \<open>
  The successive results of \<^verbatim>\<open>fgets\<close> until it returns NULL at the end of the stream. Every
  buffer of the program has at least 50 bytes; a buffer of less than two could not advance.
\<close>

function file_chunks :: "nat \<Rightarrow> string \<Rightarrow> string list" where
  "file_chunks n s =
     (if s = [] \<or> n < 2 then []
      else fst (fgets_split (n - 1) s) # file_chunks n (snd (fgets_split (n - 1) s)))"
  by pat_completeness auto
termination
proof (relation "measure (\<lambda>(n, s). length s)")
  show "wf (measure (\<lambda>(n, s). length s))" by simp
next
  fix n :: nat and s :: string
  assume a: "\<not> (s = [] \<or> n < 2)"
  then obtain c cs where s: "s = c # cs" and k: "n - 1 \<noteq> 0"
    by (cases s) auto
  have "length (snd (fgets_split (n - 1) (c # cs))) \<le> length cs"
    using fgets_split_length [of "n - 1 - 1" cs] k by (auto split: prod.splits)
  then have "length (snd (fgets_split (n - 1) s)) < length s"
    unfolding s by simp
  then show "((n, snd (fgets_split (n - 1) s)), (n, s)) \<in> measure (\<lambda>(n, s). length s)"
    by simp
qed

declare file_chunks.simps [simp del]

text \<open>The digits of \<open>n\<close> in base \<open>b\<close>, most significant first, as \<^verbatim>\<open>printf\<close> writes them.\<close>

function digits_of :: "nat \<Rightarrow> nat \<Rightarrow> nat list" where
  "digits_of b n = (if n < b \<or> b < 2 then [n] else digits_of b (n div b) @ [n mod b])"
  by pat_completeness auto
termination
  by (relation "measure (\<lambda>(b, n). n)") auto

declare digits_of.simps [simp del]

text \<open>\<^verbatim>\<open>%0<w>x\<close> of an \<^verbatim>\<open>unsigned int\<close> (\<open>w = 0\<close> is \<^verbatim>\<open>%x\<close>), \<^verbatim>\<open>%d\<close> of an \<^verbatim>\<open>int\<close>, \<^verbatim>\<open>%ld\<close> of a \<^verbatim>\<open>long\<close>.\<close>

definition printf_0x :: "nat \<Rightarrow> c_uint \<Rightarrow> string" where
  "printf_0x w v =
     (let ds = map digit_char (digits_of 16 (unat v)) in replicate (w - length ds) (CHR ''0'') @ ds)"

definition printf_ld :: "int \<Rightarrow> string" where
  "printf_ld i =
     (if i < 0 then CHR ''-'' # map digit_char (digits_of 10 (nat (- i)))
      else map digit_char (digits_of 10 (nat i)))"

definition printf_d :: "c_int \<Rightarrow> string" where
  "printf_d v = printf_ld (sint v)"

text \<open>
  The integer conversions of \<^verbatim>\<open>sscanf\<close> as the GNU C library performs them (the program is
  built for Ubuntu, with a 64-bit \<^verbatim>\<open>long\<close>): white space is skipped; an optional sign, a
  leading \<^verbatim>\<open>0\<close>, for \<^verbatim>\<open>%x\<close> an \<^verbatim>\<open>x\<close> after that \<^verbatim>\<open>0\<close>, and the digits each count against the
  field width; the characters kept are converted by \<^verbatim>\<open>strtoul\<close> (for \<^verbatim>\<open>%x\<close>) or \<^verbatim>\<open>strtol\<close> (for
  \<^verbatim>\<open>%d\<close>) and the result is truncated to 32 bits. The width \<open>None\<close> is no width.
\<close>

datatype 'a scan = Conv 'a string | Match_fail | Input_fail

definition width_left :: "nat option \<Rightarrow> bool" where
  "width_left w \<longleftrightarrow> w \<noteq> Some 0"

definition width_dec :: "nat option \<Rightarrow> nat option" where
  "width_dec w = map_option (\<lambda>n. n - 1) w"

definition width_take :: "nat option \<Rightarrow> string \<Rightarrow> string" where
  "width_take w s = (case w of None \<Rightarrow> s | Some n \<Rightarrow> take n s)"

definition digits_value :: "int \<Rightarrow> string \<Rightarrow> int" where
  "digits_value b ds = foldl (\<lambda>acc c. acc * b + int (digit_val c)) 0 ds"

definition strtoul_value :: "bool \<Rightarrow> int \<Rightarrow> string \<Rightarrow> c_uint" where
  "strtoul_value neg b ds =
     (let n = digits_value b ds in
      if 2 ^ 64 \<le> n then word_of_int (2 ^ 64 - 1)
      else if neg then word_of_int (- n) else word_of_int n)"

definition strtol_clamp :: "bool \<Rightarrow> int \<Rightarrow> string \<Rightarrow> int" where
  "strtol_clamp neg b ds =
     (let n = digits_value b ds; v = (if neg then - n else n) in
      if v < - (2 ^ 63) then - (2 ^ 63) else if 2 ^ 63 \<le> v then 2 ^ 63 - 1 else v)"

definition scan_int :: "bool \<Rightarrow> nat option \<Rightarrow> string \<Rightarrow> c_uint scan" where
  "scan_int hex width s =
     (case dropWhile isspace s of
        [] \<Rightarrow> Input_fail
      | c # cs \<Rightarrow>
          (let signed = (c = CHR ''-'' \<or> c = CHR ''+'');
               neg = (c = CHR ''-'');
               w1 = (if signed then width_dec width else width);
               s1 = (if signed then cs else c # cs);
               zero = (width_left w1 \<and> s1 \<noteq> [] \<and> hd s1 = CHR ''0'');
               w2 = (if zero then width_dec w1 else w1);
               s2 = (if zero then tl s1 else s1);
               prefix_x = (zero \<and> hex \<and> width_left w2 \<and> s2 \<noteq> [] \<and> toupper (hd s2) = CHR ''X'');
               w3 = (if prefix_x then width_dec w2 else w2);
               s3 = (if prefix_x then tl s2 else s2);
               ds = takeWhile (if hex then isxdigit else isdigit) (width_take w3 s3);
               buf = (if zero then CHR ''0'' # ds else ds)
           in if buf = [] then Match_fail
              else Conv (if hex then strtoul_value neg 16 buf
                         else word_of_int (strtol_clamp neg 10 buf))
                        (drop (length ds) s3)))"

text \<open>
  A format string as the list of its directives: a conversion \<^verbatim>\<open>%0<w>x\<close> or \<^verbatim>\<open>%d\<close>, an
  ordinary character, white space. \<open>run_scanf\<close> is \<^verbatim>\<open>sscanf\<close>: the values assigned so far
  are \<open>vs\<close>, and the result is the return value with the values assigned. \<^verbatim>\<open>EOF\<close> is
  returned when the input ends before the first conversion.
\<close>

datatype directive = Conv_x nat | Conv_d | Lit char | White

definition EOF :: int where "EOF = - 1"

fun run_scanf :: "directive list \<Rightarrow> string \<Rightarrow> c_uint list \<Rightarrow> int \<times> c_uint list" where
  "run_scanf [] s vs = (int (length vs), vs)"
| "run_scanf (White # ds) s vs = run_scanf ds (dropWhile isspace s) vs"
| "run_scanf (Lit c # ds) s vs =
     (case s of
        [] \<Rightarrow> (if vs = [] then EOF else int (length vs), vs)
      | x # xs \<Rightarrow> if x = c then run_scanf ds xs vs else (int (length vs), vs))"
| "run_scanf (Conv_x w # ds) s vs =
     (case scan_int True (Some w) s of
        Conv v r \<Rightarrow> run_scanf ds r (vs @ [v])
      | Match_fail \<Rightarrow> (int (length vs), vs)
      | Input_fail \<Rightarrow> (if vs = [] then EOF else int (length vs), vs))"
| "run_scanf (Conv_d # ds) s vs =
     (case scan_int False None s of
        Conv v r \<Rightarrow> run_scanf ds r (vs @ [v])
      | Match_fail \<Rightarrow> (int (length vs), vs)
      | Input_fail \<Rightarrow> (if vs = [] then EOF else int (length vs), vs))"

text \<open>The ordinary characters of a format string; white space in a format is a directive.\<close>

definition lits :: "string \<Rightarrow> directive list" where
  "lits s = map (\<lambda>c. if isspace c then White else Lit c) s"

text \<open>The format \<^verbatim>\<open>"%04x:%04x;%04x:%02x:%02x:%d;%d\n"\<close> of the state file, to write and to read.\<close>

definition boot_line :: "device \<Rightarrow> string" where
  "boot_line d =
     printf_0x 4 (vendor_id d) @ '':'' @ printf_0x 4 (device_id d) @ '';'' @
     printf_0x 4 (domain d) @ '':'' @ printf_0x 2 (bus d) @ '':'' @ printf_0x 2 (dev d) @ '':'' @
     printf_d (func d) @ '';'' @ printf_d (boot_vga d) @ [newline]"

definition boot_format :: "directive list" where
  "boot_format =
     [Conv_x 4, Lit (CHR '':''), Conv_x 4, Lit (CHR '';''), Conv_x 4, Lit (CHR '':''),
      Conv_x 2, Lit (CHR '':''), Conv_x 2, Lit (CHR '':''), Conv_d, Lit (CHR '';''), Conv_d, White]"

section \<open>The program's environment\<close>

text \<open>
  The state the program works on: the regular files it reads and writes, by path; the text
  of the kernel's module list (\<^verbatim>\<open>/proc/modules\<close>, or the file given with
  \<^verbatim>\<open>--fake-modules-path\<close>), \<open>None\<close> when it cannot be opened; and the sequence of actions
  performed so far: the commands given to \<^verbatim>\<open>system\<close>, the calls of \<^verbatim>\<open>unlink\<close>, and the entries
  into some functions of the program.
\<close>

type_synonym fs = "string \<Rightarrow> string option"

datatype event = Ev_system string | Ev_unlink string | Ev_call string

record world =
  files :: fs
  modules :: "string option"
  trace :: "event list"

text \<open>
  \<^verbatim>\<open>struct pci_device\<close> of \<^verbatim>\<open>libpciaccess\<close>, which the program includes and does not declare:
  the fields that \<^verbatim>\<open>get_current_devices\<close> reads, with the answer of
  \<^verbatim>\<open>pci_device_is_boot_vga\<close> for the device and the target of its \<^verbatim>\<open>driver\<close> link in
  \<^verbatim>\<open>/sys/bus/pci/devices\<close>, \<open>None\<close> when \<^verbatim>\<open>readlink\<close> fails.
\<close>

record pci_device =
  pci_domain :: "32 word"
  pci_bus :: "8 word"
  pci_dev :: "8 word"
  pci_func :: "8 word"
  pci_vendor_id :: "16 word"
  pci_device_id :: "16 word"
  pci_device_class :: "32 word"
  pci_is_boot_vga :: c_int
  pci_driver_link :: "string option"

text \<open>
  What the program cannot decide by itself: which paths can be opened for reading and for
  writing (\<open>can_write\<close> also says whether an existing file can be unlinked), the
  indeterminate content of an \<^verbatim>\<open>int\<close> that is read from a freshly allocated device before it
  is assigned, the exit status of an external command and its effect on the module list,
  the output of a pipe, the directory listings, the driver name that \<^verbatim>\<open>drmGetVersion\<close>
  gives for a node of \<^verbatim>\<open>/dev/dri\<close>, the process-table query \<^verbatim>\<open>get_gdm_session_pid\<close>, the
  version that \<^verbatim>\<open>kmod\<close> knows of a module, the kernel release of \<^verbatim>\<open>uname\<close>, the result of
  \<^verbatim>\<open>pci_system_init\<close> and the devices of the PCI iterator (\<open>None\<close> when it cannot be
  created). \<^verbatim>\<open>malloc\<close> is taken to succeed.
\<close>

record env =
  can_read :: "string \<Rightarrow> bool"
  can_write :: "string \<Rightarrow> bool"
  junk :: "int \<Rightarrow> c_int"
  command :: "string \<Rightarrow> string option \<Rightarrow> int \<times> string option"
  pipe_output :: "string \<Rightarrow> string option"
  readdir :: "string \<Rightarrow> string list option"
  drm_version :: "string \<Rightarrow> string option"
  gdm_session_pid :: "string \<Rightarrow> int"
  module_version :: "string \<Rightarrow> string option"
  uname_release :: "string option"
  pci_system_init :: int
  pci_devices :: "pci_device list option"

text \<open>The global variables that \<^verbatim>\<open>parse_cmd_line\<close> sets.\<close>

record config =
  dry_run :: bool
  fake_offloading :: int
  fake_module_available :: int
  fake_module_versioned :: int
  last_boot_file :: string
  new_boot_file :: string
  fake_lspci_file :: "string option"
  gpu_detection_path :: string
  prime_settings :: string
  xorg_conf_d_path :: string
  amdgpu_pro_px_file :: string
  modprobe_d_path :: string

definition record_event :: "event \<Rightarrow> world \<Rightarrow> world" where
  "record_event ev w = w\<lparr>trace := trace w @ [ev]\<rparr>"

text \<open>\<^verbatim>\<open>fopen(path, "r")\<close> gives the text of the file, \<^verbatim>\<open>fopen(path, "w")\<close> an empty file.\<close>

definition fopen_r :: "env \<Rightarrow> string \<Rightarrow> world \<Rightarrow> string option" where
  "fopen_r e path w = (if can_read e path then files w path else None)"

definition fopen_w :: "env \<Rightarrow> string \<Rightarrow> world \<Rightarrow> world option" where
  "fopen_w e path w = (if can_write e path then Some (w\<lparr>files := (files w)(path \<mapsto> [])\<rparr>) else None)"

text \<open>\<^verbatim>\<open>fprintf\<close> or \<^verbatim>\<open>fputs\<close> on a file opened for writing: the text goes to its end.\<close>

definition fputs :: "string \<Rightarrow> string \<Rightarrow> world \<Rightarrow> world" where
  "fputs path text w =
     w\<lparr>files := (files w)(path \<mapsto> (case files w path of None \<Rightarrow> text | Some c \<Rightarrow> c @ text))\<rparr>"

section \<open>Writing and reading the state file\<close>

text \<open>The loop of \<^verbatim>\<open>write_data_to_file\<close>, entered at index \<open>i\<close>.\<close>

function write_data_from :: "string \<Rightarrow> gpus \<Rightarrow> int \<Rightarrow> world \<Rightarrow> world option" where
  "write_data_from filename g i w =
     (if i < nr_cards g then
        (case card_deref g i of
           None \<Rightarrow> None
         | Some d \<Rightarrow> write_data_from filename g (i + 1) (fputs filename (boot_line d) w))
      else Some w)"
  by pat_completeness auto
termination
  by (relation "measure (\<lambda>(filename, g, i, w). nat (nr_cards g - i))") auto

declare write_data_from.simps [simp del]

definition write_data_to_file :: "env \<Rightarrow> string \<Rightarrow> gpus \<Rightarrow> world \<Rightarrow> (bool \<times> world) option" where
  "write_data_to_file e filename g w =
     (let w0 = record_event (Ev_call ''write_data_to_file'') w in
      case fopen_w e filename w0 of
        None \<Rightarrow> Some (False, w0)
      | Some w1 \<Rightarrow>
          (case write_data_from filename g 0 w1 of
             None \<Rightarrow> None
           | Some w2 \<Rightarrow> Some (True, w2)))"

text \<open>
  The device that \<^verbatim>\<open>get_vars\<close> allocates and \<^verbatim>\<open>sscanf\<close> fills, in the order of the arguments
  of \<^verbatim>\<open>sscanf\<close>; a field that was not assigned keeps the indeterminate value \<open>j\<close>.
\<close>

definition nth_or :: "c_uint \<Rightarrow> c_uint list \<Rightarrow> nat \<Rightarrow> c_uint" where
  "nth_or j vs k = (if k < length vs then vs ! k else j)"

definition scanned_device :: "c_int \<Rightarrow> c_uint list \<Rightarrow> device" where
  "scanned_device j vs =
     \<lparr>boot_vga = nth_or j vs 6, vendor_id = nth_or j vs 0, device_id = nth_or j vs 1,
      domain = nth_or j vs 2, bus = nth_or j vs 3, dev = nth_or j vs 4, func = nth_or j vs 5,
      has_connected_outputs = j\<rparr>"

definition get_vars :: "env \<Rightarrow> string \<Rightarrow> gpus \<Rightarrow> int \<Rightarrow> (int \<times> gpus) option" where
  "get_vars e line g desired_matches =
     (case run_scanf boot_format line [] of
        (status, vs) \<Rightarrow>
          (let d = (if status = EOF \<or> status \<noteq> desired_matches then None
                    else Some (scanned_device (junk e (nr_cards g)) vs)) in
           case card_store g (nr_cards g) d of
             None \<Rightarrow> None
           | Some g' \<Rightarrow> Some (status, g')))"

text \<open>
  The loop \<^verbatim>\<open>while (fgets(line, sizeof(line), file) && (gpus->nr_cards < MAX_NR_CARDS))\<close> of
  \<^verbatim>\<open>read_data_from_file\<close>, on the lines that \<^verbatim>\<open>fgets\<close> has still to give.
\<close>

fun read_data_lines :: "env \<Rightarrow> string list \<Rightarrow> gpus \<Rightarrow> gpus option" where
  "read_data_lines e [] g = Some g"
| "read_data_lines e (line # rest) g =
     (if nr_cards g < MAX_NR_CARDS then
        (if 0 < length (c_str line) then
           (case get_vars e (c_str line) g 7 of
              None \<Rightarrow> None
            | Some (status, g') \<Rightarrow>
                read_data_lines e rest (if status = 7 then g'\<lparr>nr_cards := nr_cards g' + 1\<rparr> else g'))
         else read_data_lines e rest g)
      else Some g)"

definition zero_device :: device where
  "zero_device =
     \<lparr>boot_vga = 0, vendor_id = 0, device_id = 0, domain = 0, bus = 0, dev = 0, func = 0,
      has_connected_outputs = 0\<rparr>"

definition read_data_from_file :: "env \<Rightarrow> string \<Rightarrow> gpus \<Rightarrow> world \<Rightarrow> (int \<times> gpus \<times> world) option" where
  "read_data_from_file e filename g w =
     (case fopen_r e filename w of
        Some text \<Rightarrow>
          map_option (\<lambda>g'. (1, g', w)) (read_data_lines e (file_chunks 100 text) g)
      | None \<Rightarrow>
          (case fopen_w e filename w of
             None \<Rightarrow> Some (0, g, w)
           | Some w1 \<Rightarrow>
               (let w2 = fputs filename (boot_line zero_device) w1 in
                case fopen_r e filename w2 of
                  None \<Rightarrow> Some (0, g, w2)
                | Some text \<Rightarrow>
                    map_option (\<lambda>g'. (2, g', w2)) (read_data_lines e (file_chunks 100 text) g))))"

section \<open>String functions\<close>

text \<open>\<^verbatim>\<open>starts_with(string, prefix)\<close>.\<close>

definition starts_with :: "string \<Rightarrow> string \<Rightarrow> bool" where
  "starts_with string pre =
     (if length string < length pre then False else take (length pre) string = pre)"

text \<open>
  \<^verbatim>\<open>istrstr(str1, str2) != NULL\<close>. \<open>istr_match\<close> is the inner loop over \<^verbatim>\<open>chr1\<close> and \<^verbatim>\<open>chr2\<close>
  with the test \<^verbatim>\<open>!*chr2\<close> that follows it.
\<close>

fun istr_match :: "string \<Rightarrow> string \<Rightarrow> bool" where
  "istr_match chr1 [] = True"
| "istr_match [] (c2 # chr2) = False"
| "istr_match (c1 # chr1) (c2 # chr2) =
     (if toupper c1 \<noteq> toupper c2 then False else istr_match chr1 chr2)"

fun istrstr :: "string \<Rightarrow> string \<Rightarrow> bool" where
  "istrstr [] str2 = (str2 = [])"
| "istrstr (c1 # str1) str2 =
     (if str2 = [] then True
      else if toupper c1 = toupper (hd str2) \<and> istr_match (c1 # str1) str2 then True
      else istrstr str1 str2)"

text \<open>\<^verbatim>\<open>strstr(haystack, needle) != NULL\<close> of the C library.\<close>

fun strstr :: "string \<Rightarrow> string \<Rightarrow> bool" where
  "strstr [] needle = (needle = [])"
| "strstr (c # haystack) needle = (starts_with (c # haystack) needle \<or> strstr haystack needle)"

text \<open>
  The first call \<^verbatim>\<open>strtok(line, " \t")\<close>: NULL, here \<open>None\<close>, when the line has nothing but
  blanks and tabs.
\<close>

definition is_blank :: "char \<Rightarrow> bool" where
  "is_blank c \<longleftrightarrow> c = CHR '' '' \<or> c = CHR 0x09"

definition strtok_first :: "string \<Rightarrow> string option" where
  "strtok_first line =
     (case dropWhile is_blank line of
        [] \<Rightarrow> None
      | c # cs \<Rightarrow> Some (takeWhile (\<lambda>x. \<not> is_blank x) (c # cs)))"

text \<open>\<^verbatim>\<open>snprintf(buffer, n, ...)\<close> keeps the first \<open>n - 1\<close> characters of the text.\<close>

definition snprintf :: "nat \<Rightarrow> string \<Rightarrow> string" where
  "snprintf n text = take (n - 1) text"

definition PATH_MAX :: nat where "PATH_MAX = 4096"

section \<open>Files and kernel modules\<close>

definition exists_not_empty :: "string \<Rightarrow> world \<Rightarrow> bool" where
  "exists_not_empty file w = (case files w file of None \<Rightarrow> False | Some text \<Rightarrow> text \<noteq> [])"

definition is_file :: "string \<Rightarrow> world \<Rightarrow> bool" where
  "is_file file w = (files w file \<noteq> None)"

text \<open>
  \<^verbatim>\<open>act_upon_module_with_params\<close>: the command is run by \<^verbatim>\<open>system\<close> unless \<^verbatim>\<open>dry_run\<close> is set.
\<close>

definition run_system :: "env \<Rightarrow> string \<Rightarrow> world \<Rightarrow> int \<times> world" where
  "run_system e cmd w =
     (case command e cmd (modules w) of
        (status, m) \<Rightarrow> (status, w\<lparr>modules := m, trace := trace w @ [Ev_system cmd]\<rparr>))"

definition act_upon_module_with_params ::
    "env \<Rightarrow> config \<Rightarrow> string \<Rightarrow> int \<Rightarrow> string option \<Rightarrow> world \<Rightarrow> bool \<times> world" where
  "act_upon_module_with_params e cfg module mode params w =
     (let cmd = (case params of
                   Some ps \<Rightarrow>
                     snprintf 300 ((if mode \<noteq> 0 then ''/sbin/modprobe'' else ''/sbin/rmmod'') @
                                   '' '' @ module @ '' '' @ ps)
                 | None \<Rightarrow>
                     snprintf 300 ((if mode \<noteq> 0 then ''/sbin/modprobe'' else ''/sbin/rmmod'') @
                                   '' '' @ module))
      in if dry_run cfg then (True, w)
         else (case run_system e cmd w of (status, w') \<Rightarrow> (status = 0, w')))"

definition load_module_with_params ::
    "env \<Rightarrow> config \<Rightarrow> string \<Rightarrow> string option \<Rightarrow> world \<Rightarrow> bool \<times> world" where
  "load_module_with_params e cfg module params w = act_upon_module_with_params e cfg module 1 params w"

definition load_module :: "env \<Rightarrow> config \<Rightarrow> string \<Rightarrow> world \<Rightarrow> bool \<times> world" where
  "load_module e cfg module w = load_module_with_params e cfg module None w"

definition unload_module :: "env \<Rightarrow> config \<Rightarrow> string \<Rightarrow> world \<Rightarrow> bool \<times> world" where
  "unload_module e cfg module w = act_upon_module_with_params e cfg module 0 None w"

text \<open>
  \<^verbatim>\<open>is_module_loaded\<close>: the loop over the lines of the module list. \<^verbatim>\<open>strcmp(tok, module)\<close>
  with a NULL \<^verbatim>\<open>tok\<close> is undefined behaviour, the value \<open>None\<close>.
\<close>

fun module_in_lines :: "string \<Rightarrow> string list \<Rightarrow> bool option" where
  "module_in_lines module [] = Some False"
| "module_in_lines module (line # rest) =
     (case strtok_first (c_str line) of
        None \<Rightarrow> None
      | Some tok \<Rightarrow> if tok = module then Some True else module_in_lines module rest)"

definition module_listed :: "string \<Rightarrow> string option \<Rightarrow> bool option" where
  "module_listed module m =
     (case m of None \<Rightarrow> Some False | Some text \<Rightarrow> module_in_lines module (file_chunks 4096 text))"

definition is_module_loaded :: "string \<Rightarrow> world \<Rightarrow> bool option" where
  "is_module_loaded module w = module_listed module (modules w)"

text \<open>\<^verbatim>\<open>has_unloaded_module\<close>.\<close>

definition has_unloaded_module :: "config \<Rightarrow> string \<Rightarrow> world \<Rightarrow> bool option" where
  "has_unloaded_module cfg module w =
     (let path = snprintf PATH_MAX (gpu_detection_path cfg @ ''/u-d-c-'' @ module @ ''-was-loaded'') in
      if is_file path w then
        (case is_module_loaded module w of
           None \<Rightarrow> None
         | Some loaded \<Rightarrow> Some (\<not> loaded))
      else Some False)"

text \<open>
  \<^verbatim>\<open>get_output(command, NULL, NULL)\<close>, the only way the program calls it: the first line of
  the output of the pipe, without its newline. A first line that is empty as a C string
  makes the function read \<^verbatim>\<open>output[-1]\<close>, which is undefined behaviour.
\<close>

definition get_output :: "env \<Rightarrow> string \<Rightarrow> string option option" where
  "get_output e cmd =
     (case pipe_output e cmd of
        None \<Rightarrow> Some None
      | Some text \<Rightarrow>
          (case file_chunks 1035 text of
             [] \<Rightarrow> Some None
           | buffer # rest \<Rightarrow>
               (let output = c_str buffer in
                if output = [] then None
                else if last output = newline then Some (Some (butlast output))
                else Some (Some output))))"

section \<open>The PRIME settings and the Xorg fragments\<close>

text \<open>
  \<^verbatim>\<open>get_prime_action\<close>: the loop body ends with \<^verbatim>\<open>break\<close> on every path, so only the first
  line that \<^verbatim>\<open>fgets\<close> gives is looked at.
\<close>

definition get_prime_action :: "env \<Rightarrow> string \<Rightarrow> world \<Rightarrow> prime_mode_settings" where
  "get_prime_action e path w =
     (case fopen_r e path w of
        None \<Rightarrow> OFF
      | Some text \<Rightarrow>
          (case file_chunks 100 text of
             [] \<Rightarrow> OFF
           | line # rest \<Rightarrow>
               if istrstr (c_str line) ''on-demand'' then ONDEMAND
               else if istrstr (c_str line) ''on'' then ON
               else OFF))"

definition create_prime_settings :: "env \<Rightarrow> string \<Rightarrow> world \<Rightarrow> bool \<times> world" where
  "create_prime_settings e path w =
     (case fopen_w e path w of
        None \<Rightarrow> (False, w)
      | Some w1 \<Rightarrow> (True, fputs path (''on'' @ [newline]) w1))"

definition dquote :: char where "dquote = CHR 0x22"

definition quoted :: "string \<Rightarrow> string" where
  "quoted s = dquote # s @ [dquote]"

definition outputclass_text :: "string \<Rightarrow> string" where
  "outputclass_text multiarch =
     ''# DO NOT EDIT. AUTOMATICALLY GENERATED BY gpu-manager'' @ [newline, newline] @
     ''Section '' @ quoted ''OutputClass'' @ [newline] @
     ''    Identifier '' @ quoted ''Nvidia Prime'' @ [newline] @
     ''    MatchDriver '' @ quoted ''nvidia-drm'' @ [newline] @
     ''    Driver '' @ quoted ''nvidia'' @ [newline] @
     ''    Option '' @ quoted ''AllowEmptyInitialConfiguration'' @ [newline] @
     ''    Option '' @ quoted ''IgnoreDisplayDevices'' @ '' '' @ quoted ''CRT'' @ [newline] @
     ''    Option '' @ quoted ''PrimaryGPU'' @ '' '' @ quoted ''Yes'' @ [newline] @
     ''    ModulePath '' @ quoted (''/'' @ multiarch @ ''/nvidia/xorg'') @ [newline] @
     ''EndSection'' @ [newline, newline]"

definition serverlayout_text :: string where
  "serverlayout_text =
     ''# DO NOT EDIT. AUTOMATICALLY GENERATED BY gpu-manager'' @ [newline, newline] @
     ''Section '' @ quoted ''ServerLayout'' @ [newline] @
     ''    Identifier '' @ quoted ''layout'' @ [newline] @
     ''    Option '' @ quoted ''AllowNVIDIAGPUScreens'' @ [newline] @
     ''EndSection'' @ [newline, newline]"

definition prime_outputclass_path :: "config \<Rightarrow> string" where
  "prime_outputclass_path cfg = snprintf PATH_MAX (xorg_conf_d_path cfg @ ''/11-nvidia-prime.conf'')"

definition offload_serverlayout_path :: "config \<Rightarrow> string" where
  "offload_serverlayout_path cfg = snprintf PATH_MAX (xorg_conf_d_path cfg @ ''/11-nvidia-offload.conf'')"

definition create_prime_outputclass :: "env \<Rightarrow> config \<Rightarrow> world \<Rightarrow> (bool \<times> world) option" where
  "create_prime_outputclass e cfg w =
     (case get_output e (snprintf 100 ''/usr/bin/dpkg-architecture -qDEB_HOST_MULTIARCH'') of
        None \<Rightarrow> None
      | Some None \<Rightarrow> Some (False, w)
      | Some (Some multiarch) \<Rightarrow>
          (case fopen_w e (prime_outputclass_path cfg) w of
             None \<Rightarrow> Some (False, w)
           | Some w1 \<Rightarrow> Some (True, fputs (prime_outputclass_path cfg) (outputclass_text multiarch) w1)))"

definition create_offload_serverlayout :: "env \<Rightarrow> config \<Rightarrow> world \<Rightarrow> bool \<times> world" where
  "create_offload_serverlayout e cfg w =
     (case fopen_w e (offload_serverlayout_path cfg) w of
        None \<Rightarrow> (False, w)
      | Some w1 \<Rightarrow> (True, fputs (offload_serverlayout_path cfg) serverlayout_text w1))"

text \<open>
  \<^verbatim>\<open>remove_xorg_d_custom_file\<close> returns 0 or \<^verbatim>\<open>-errno\<close>: \<^verbatim>\<open>ENOENT\<close> when \<^verbatim>\<open>stat\<close> finds no
  file, \<^verbatim>\<open>EACCES\<close> when \<^verbatim>\<open>unlink\<close> is refused.
\<close>

definition ENOENT :: int where "ENOENT = 2"
definition EACCES :: int where "EACCES = 13"

definition remove_xorg_d_custom_file :: "env \<Rightarrow> config \<Rightarrow> string \<Rightarrow> world \<Rightarrow> int \<times> world" where
  "remove_xorg_d_custom_file e cfg name w =
     (let path = snprintf PATH_MAX (xorg_conf_d_path cfg @ ''/'' @ name) in
      if files w path \<noteq> None then
        (let w1 = record_event (Ev_unlink path) w in
         if can_write e path then (0, w1\<lparr>files := (files w1)(path := None)\<rparr>)
         else (- EACCES, w1))
      else (- ENOENT, w))"

definition remove_prime_outputclass :: "env \<Rightarrow> config \<Rightarrow> world \<Rightarrow> int \<times> world" where
  "remove_prime_outputclass e cfg w = remove_xorg_d_custom_file e cfg ''11-nvidia-prime.conf'' w"

definition remove_offload_serverlayout :: "env \<Rightarrow> config \<Rightarrow> world \<Rightarrow> int \<times> world" where
  "remove_offload_serverlayout e cfg w = remove_xorg_d_custom_file e cfg ''11-nvidia-offload.conf'' w"

section \<open>Power management, unloading and the display session\<close>

definition power_control_path :: "device \<Rightarrow> string" where
  "power_control_path d =
     snprintf PATH_MAX
       (''/sys/bus/pci/devices/'' @ printf_0x 4 (domain d) @ '':'' @ printf_0x 2 (bus d) @ '':'' @
        printf_0x 2 (dev d) @ ''.'' @ printf_0x 0 (func d) @ ''/power/control'')"

definition manage_power_management :: "env \<Rightarrow> device \<Rightarrow> bool \<Rightarrow> world \<Rightarrow> bool \<times> world" where
  "manage_power_management e d enabled w =
     (case fopen_w e (power_control_path d) w of
        None \<Rightarrow> (False, w)
      | Some w1 \<Rightarrow>
          (True, fputs (power_control_path d) ((if enabled then ''auto'' else ''on'') @ [newline]) w1))"

definition enable_power_management :: "env \<Rightarrow> device \<Rightarrow> world \<Rightarrow> world" where
  "enable_power_management e d w =
     snd (manage_power_management e d True (record_event (Ev_call ''enable_power_management'') w))"

definition disable_power_management :: "env \<Rightarrow> device \<Rightarrow> world \<Rightarrow> world" where
  "disable_power_management e d w =
     snd (manage_power_management e d False (record_event (Ev_call ''disable_power_management'') w))"

definition unload_nvidia :: "env \<Rightarrow> config \<Rightarrow> world \<Rightarrow> bool \<times> world" where
  "unload_nvidia e cfg w =
     (let w0 = record_event (Ev_call ''unload_nvidia'') w;
          w1 = snd (unload_module e cfg ''nvidia-drm'' w0);
          w2 = snd (unload_module e cfg ''nvidia-uvm'' w1);
          w3 = snd (unload_module e cfg ''nvidia-modeset'' w2)
      in unload_module e cfg ''nvidia'' w3)"

text \<open>
  \<^verbatim>\<open>kill_main_display_session\<close>: the loop over \<^verbatim>\<open>servers[] = {"Xwayland", "Xorg"}\<close> ends at the
  first server with a positive pid.
\<close>

fun find_session_pid :: "env \<Rightarrow> string list \<Rightarrow> int \<Rightarrow> int" where
  "find_session_pid e [] pid = pid"
| "find_session_pid e (server # rest) pid =
     (let pid' = gdm_session_pid e server in
      if pid' \<le> 0 then find_session_pid e rest pid' else pid')"

definition kill_main_display_session :: "env \<Rightarrow> config \<Rightarrow> world \<Rightarrow> bool \<times> world" where
  "kill_main_display_session e cfg w =
     (let w0 = record_event (Ev_call ''kill_main_display_session'') w in
      if \<not> dry_run cfg then
        (let pid = find_session_pid e [''Xwayland'', ''Xorg''] (- 1) in
         if pid \<le> 0 then (False, w0)
         else (case run_system e (snprintf 100 (''kill -KILL '' @ printf_ld pid)) w0 of
                 (status, w1) \<Rightarrow> (status = 0, w1)))
      else (True, w0))"

section \<open>Enabling PRIME\<close>

text \<open>
  The branch of \<^verbatim>\<open>enable_prime\<close> for the mode \<^verbatim>\<open>OFF\<close>, from the label \<^verbatim>\<open>unload_again\<close> on:
  \<^verbatim>\<open>goto unload_again\<close> is the recursive call, taken only with \<^verbatim>\<open>tries == 0\<close>.
\<close>

function unload_again :: "env \<Rightarrow> config \<Rightarrow> device \<Rightarrow> int \<Rightarrow> world \<Rightarrow> (bool \<times> world) option" where
  "unload_again e cfg d tries w =
     (case is_module_loaded ''nvidia'' w of
        None \<Rightarrow> None
      | Some False \<Rightarrow> Some (True, enable_power_management e d w)
      | Some True \<Rightarrow>
          (case unload_nvidia e cfg w of
             (status, w1) \<Rightarrow>
               if status then Some (True, enable_power_management e d w1)
               else
                 (case is_module_loaded ''nvidia'' w1 of
                    None \<Rightarrow> None
                  | Some False \<Rightarrow> Some (True, enable_power_management e d w1)
                  | Some True \<Rightarrow>
                      if tries = 0 then
                        (case kill_main_display_session e cfg w1 of
                           (killed, w2) \<Rightarrow>
                             if killed then unload_again e cfg d (tries + 1) w2
                             else Some (True, enable_power_management e d w2))
                      else Some (False, w1))))"
  by pat_completeness auto
termination
  by (relation "measure (\<lambda>(e, cfg, d, tries, w). if tries = 0 then 1 else 0)") auto

declare unload_again.simps [simp del]

definition prime_off :: "env \<Rightarrow> config \<Rightarrow> device \<Rightarrow> world \<Rightarrow> (bool \<times> world) option" where
  "prime_off e cfg d w =
     (let w1 = snd (remove_prime_outputclass e cfg w);
          w2 = snd (remove_offload_serverlayout e cfg w1)
      in unload_again e cfg d 0 w2)"

definition ensure_nvidia_loaded :: "env \<Rightarrow> config \<Rightarrow> world \<Rightarrow> world option" where
  "ensure_nvidia_loaded e cfg w =
     (case is_module_loaded ''nvidia'' w of
        None \<Rightarrow> None
      | Some loaded \<Rightarrow> Some (if \<not> loaded then snd (load_module e cfg ''nvidia'' w) else w))"

definition prime_on :: "env \<Rightarrow> config \<Rightarrow> device \<Rightarrow> world \<Rightarrow> (bool \<times> world) option" where
  "prime_on e cfg d w =
     (case create_prime_outputclass e cfg w of
        None \<Rightarrow> None
      | Some (created, w1) \<Rightarrow>
          (let w2 = snd (remove_offload_serverlayout e cfg w1);
               w3 = disable_power_management e d w2
           in map_option (Pair True) (ensure_nvidia_loaded e cfg w3)))"

definition prime_ondemand :: "env \<Rightarrow> config \<Rightarrow> device \<Rightarrow> world \<Rightarrow> (bool \<times> world) option" where
  "prime_ondemand e cfg d w =
     (let w1 = snd (create_offload_serverlayout e cfg w);
          w2 = snd (remove_prime_outputclass e cfg w1);
          w3 = enable_power_management e d w2
      in map_option (Pair True) (ensure_nvidia_loaded e cfg w3))"

definition prime_mode_branch ::
    "env \<Rightarrow> config \<Rightarrow> string \<Rightarrow> device \<Rightarrow> world \<Rightarrow> (bool \<times> world) option" where
  "prime_mode_branch e cfg path d w =
     (let prime_mode = get_prime_action e path w in
      if prime_mode = ON then prime_on e cfg d w
      else if prime_mode = ONDEMAND then prime_ondemand e cfg d w
      else prime_off e cfg d w)"

definition enable_prime ::
    "env \<Rightarrow> config \<Rightarrow> string \<Rightarrow> device \<Rightarrow> world \<Rightarrow> (bool \<times> world) option" where
  "enable_prime e cfg path d w =
     (if \<not> exists_not_empty path w then
        (case create_prime_settings e path w of
           (created, w1) \<Rightarrow>
             if \<not> created then Some (False, w1) else prime_mode_branch e cfg path d w1)
      else prime_mode_branch e cfg path d w)"

section \<open>Disabled cards\<close>

text \<open>
  \<^verbatim>\<open>add_gpu_from_file\<close> scans the path of a marker file with the format made of the name of
  the directory, a slash and \<^verbatim>\<open>u-d-c-gpu-%04x:%02x:%02x.%d-0x%04x-0x%04x\<close>. \<^verbatim>\<open>sprintf\<close> writes
  that format to a buffer of \<^verbatim>\<open>PATH_MAX\<close> bytes; a directory name too long for it, or one
  with a per cent sign, has no defined behaviour. The field \<^verbatim>\<open>boot_vga\<close> of the new device
  is not assigned.
\<close>

definition marker_format :: "string \<Rightarrow> directive list" where
  "marker_format dirname =
     lits (dirname @ ''/u-d-c-gpu-'') @
     [Conv_x 4, Lit (CHR '':''), Conv_x 2, Lit (CHR '':''), Conv_x 2, Lit (CHR ''.''), Conv_d,
      Lit (CHR ''-''), Lit (CHR ''0''), Lit (CHR ''x''), Conv_x 4,
      Lit (CHR ''-''), Lit (CHR ''0''), Lit (CHR ''x''), Conv_x 4]"

definition marker_device :: "c_int \<Rightarrow> c_uint list \<Rightarrow> device" where
  "marker_device j vs =
     \<lparr>boot_vga = j, vendor_id = nth_or j vs 4, device_id = nth_or j vs 5, domain = nth_or j vs 0,
      bus = nth_or j vs 1, dev = nth_or j vs 2, func = nth_or j vs 3,
      has_connected_outputs = - 1\<rparr>"

definition add_gpu_from_file ::
    "env \<Rightarrow> string \<Rightarrow> string \<Rightarrow> gpus \<Rightarrow> world \<Rightarrow> (gpus \<times> world) option" where
  "add_gpu_from_file e filename dirname g w =
     (let w0 = record_event (Ev_call ''add_gpu_from_file'') w in
      if CHR ''%'' \<in> set dirname \<or> PATH_MAX < length dirname + 43 then None
      else
        (case run_scanf (marker_format dirname) filename [] of
           (status, vs) \<Rightarrow>
             if status = EOF \<or> status \<noteq> 6 then Some (g, w0)
             else
               (case card_store g (nr_cards g) (Some (marker_device (junk e (nr_cards g)) vs)) of
                  None \<Rightarrow> None
                | Some g' \<Rightarrow> Some (g'\<lparr>nr_cards := nr_cards g' + 1\<rparr>, w0))))"

text \<open>The loop over \<^verbatim>\<open>readdir\<close> of \<^verbatim>\<open>find_disabled_cards\<close>, with \<^verbatim>\<open>fcn = add_gpu_from_file\<close>.\<close>

fun find_disabled_entries ::
    "env \<Rightarrow> string \<Rightarrow> string list \<Rightarrow> gpus \<Rightarrow> world \<Rightarrow> (gpus \<times> world) option" where
  "find_disabled_entries e dir [] g w = Some (g, w)"
| "find_disabled_entries e dir (d_name # rest) g w =
     (if \<not> starts_with d_name ''u-d-c-gpu-'' then find_disabled_entries e dir rest g w
      else if PATH_MAX < length dir + length d_name + 2 then find_disabled_entries e dir rest g w
      else
        (case add_gpu_from_file e (dir @ ''/'' @ d_name) dir g w of
           None \<Rightarrow> None
         | Some (g', w') \<Rightarrow> find_disabled_entries e dir rest g' w'))"

definition find_disabled_cards :: "env \<Rightarrow> string \<Rightarrow> gpus \<Rightarrow> world \<Rightarrow> (gpus \<times> world) option" where
  "find_disabled_cards e dir g w =
     (let w0 = record_event (Ev_call ''find_disabled_cards'') w in
      case readdir e dir of
        None \<Rightarrow> Some (g, w0)
      | Some entries \<Rightarrow> find_disabled_entries e dir entries g w0)"

section \<open>The boot display and the discrete adapter\<close>

function get_boot_vga_from :: "gpus \<Rightarrow> int \<Rightarrow> device option option" where
  "get_boot_vga_from g i =
     (if i < nr_cards g then
        (case card_deref g i of
           None \<Rightarrow> None
         | Some d \<Rightarrow> if boot_vga d \<noteq> 0 then Some (Some d) else get_boot_vga_from g (i + 1))
      else Some None)"
  by pat_completeness auto
termination
  by (relation "measure (\<lambda>(g, i). nat (nr_cards g - i))") auto

declare get_boot_vga_from.simps [simp del]

definition get_boot_vga :: "gpus \<Rightarrow> device option option" where
  "get_boot_vga g = get_boot_vga_from g 0"

function get_first_discrete_from :: "gpus \<Rightarrow> int \<Rightarrow> device option option" where
  "get_first_discrete_from g i =
     (if i < nr_cards g then
        (case card_deref g i of
           None \<Rightarrow> None
         | Some d \<Rightarrow> if \<not> boot_vga d \<noteq> 0 then Some (Some d) else get_first_discrete_from g (i + 1))
      else Some None)"
  by pat_completeness auto
termination
  by (relation "measure (\<lambda>(g, i). nat (nr_cards g - i))") auto

declare get_first_discrete_from.simps [simp del]

definition get_first_discrete :: "gpus \<Rightarrow> device option option" where
  "get_first_discrete g = get_first_discrete_from g 0"

definition requires_offloading :: "gpus \<Rightarrow> bool option" where
  "requires_offloading g =
     (case get_boot_vga g of
        None \<Rightarrow> None
      | Some None \<Rightarrow> Some False
      | Some (Some d) \<Rightarrow> Some (sint (has_connected_outputs d) = 1 \<and> vendor_id d = INTEL))"

section \<open>Connected outputs\<close>

text \<open>
  \<^verbatim>\<open>is_connector_connected\<close>: \<^verbatim>\<open>starts_with(tok, "connected")\<close> with a NULL \<^verbatim>\<open>tok\<close> is undefined
  behaviour, the value \<open>None\<close>.
\<close>

fun connected_in_lines :: "string list \<Rightarrow> bool option" where
  "connected_in_lines [] = Some False"
| "connected_in_lines (line # rest) =
     (case strtok_first (c_str line) of
        None \<Rightarrow> None
      | Some tok \<Rightarrow> if starts_with tok ''connected'' then Some True else connected_in_lines rest)"

definition is_connector_connected :: "env \<Rightarrow> string \<Rightarrow> world \<Rightarrow> bool option" where
  "is_connector_connected e connector w =
     (case fopen_r e connector w of
        None \<Rightarrow> Some False
      | Some text \<Rightarrow> connected_in_lines (file_chunks 50 text))"

definition connector_status_path :: "string \<Rightarrow> string" where
  "connector_status_path d_name = snprintf PATH_MAX (''/sys/class/drm'' @ ''/'' @ d_name @ ''/status'')"

fun count_connected_entries ::
    "env \<Rightarrow> string \<Rightarrow> string list \<Rightarrow> int \<Rightarrow> world \<Rightarrow> int option" where
  "count_connected_entries e device_name [] connected_outputs w = Some connected_outputs"
| "count_connected_entries e device_name (d_name # rest) connected_outputs w =
     (if \<not> starts_with d_name device_name
      then count_connected_entries e device_name rest connected_outputs w
      else if PATH_MAX < length ''/sys/class/drm'' + length d_name + 2
      then count_connected_entries e device_name rest connected_outputs w
      else
        (case is_connector_connected e (connector_status_path d_name) w of
           None \<Rightarrow> None
         | Some True \<Rightarrow> count_connected_entries e device_name rest (connected_outputs + 1) w
         | Some False \<Rightarrow> count_connected_entries e device_name rest connected_outputs w))"

definition count_connected_outputs :: "env \<Rightarrow> string \<Rightarrow> world \<Rightarrow> int option" where
  "count_connected_outputs e device_name w =
     (case readdir e ''/sys/class/drm'' of
        None \<Rightarrow> Some 0
      | Some entries \<Rightarrow> count_connected_entries e device_name entries 0 w)"

text \<open>
  The loop of \<^verbatim>\<open>has_driver_connected_outputs\<close> over \<^verbatim>\<open>/dev/dri\<close>: the name of the first entry
  that starts with \<^verbatim>\<open>card\<close> and whose driver name, if \<^verbatim>\<open>drmGetVersion\<close> gives one, contains
  \<^verbatim>\<open>driver\<close>.
\<close>

fun find_driver_node :: "env \<Rightarrow> string \<Rightarrow> string list \<Rightarrow> string option" where
  "find_driver_node e driver [] = None"
| "find_driver_node e driver (d_name # rest) =
     (if \<not> starts_with d_name ''card'' then find_driver_node e driver rest
      else
        (case drm_version e d_name of
           Some name \<Rightarrow> if strstr name driver then Some d_name else find_driver_node e driver rest
         | None \<Rightarrow> find_driver_node e driver rest))"

definition has_driver_connected_outputs :: "env \<Rightarrow> string \<Rightarrow> world \<Rightarrow> int option" where
  "has_driver_connected_outputs e driver w =
     (case readdir e ''/dev/dri'' of
        None \<Rightarrow> Some (- 1)
      | Some entries \<Rightarrow>
          (case find_driver_node e driver entries of
             None \<Rightarrow> Some (- 1)
           | Some device_path \<Rightarrow>
               (case count_connected_outputs e device_path w of
                  None \<Rightarrow> None
                | Some connected_outputs \<Rightarrow> Some (if 0 < connected_outputs then 1 else 0))))"

section \<open>The devices of the PCI bus\<close>

unbundle bit_operations_syntax

definition is_display_controller :: "pci_device \<Rightarrow> bool" where
  "is_display_controller pci \<longleftrightarrow> (drop_bit 16 (pci_device_class pci)) AND 0xFF = 0x03"

definition is_device_pci_passthrough :: "pci_device \<Rightarrow> bool" where
  "is_device_pci_passthrough info =
     (case pci_driver_link info of
        None \<Rightarrow> False
      | Some target \<Rightarrow>
          (let buf = c_str (take 1023 target);
               name = rev (takeWhile (\<lambda>c. c \<noteq> CHR ''/'') (rev buf))
           in name = ''pci-stub'' \<or> name = ''pciback''))"

definition free_devices :: "gpus \<Rightarrow> gpus" where
  "free_devices g = g\<lparr>cards := map (\<lambda>p. None) (cards g), nr_cards := 0\<rparr>"

text \<open>
  The device that \<^verbatim>\<open>get_current_devices\<close> builds; \<open>outs\<close> holds the results of
  \<^verbatim>\<open>has_driver_connected_outputs\<close> for \<^verbatim>\<open>amdgpu\<close>, \<^verbatim>\<open>radeon\<close>, \<^verbatim>\<open>nouveau\<close> and \<^verbatim>\<open>i915\<close>.
\<close>

definition pci_to_device :: "int \<times> int \<times> int \<times> int \<Rightarrow> pci_device \<Rightarrow> device" where
  "pci_to_device outs info =
     (case outs of
        (amdgpu_has_outputs, radeon_has_outputs, nouveau_has_outputs, intel_has_outputs) \<Rightarrow>
          \<lparr>boot_vga = pci_is_boot_vga info,
           vendor_id = ucast (pci_vendor_id info),
           device_id = ucast (pci_device_id info),
           domain = pci_domain info,
           bus = ucast (pci_bus info),
           dev = ucast (pci_dev info),
           func = ucast (pci_func info),
           has_connected_outputs =
             (if (ucast (pci_vendor_id info) :: c_uint) = AMD
              then word_of_int (if radeon_has_outputs \<noteq> - 1 then radeon_has_outputs
                                else amdgpu_has_outputs)
              else if (ucast (pci_vendor_id info) :: c_uint) = INTEL then word_of_int intel_has_outputs
              else if (ucast (pci_vendor_id info) :: c_uint) = NVIDIA then word_of_int nouveau_has_outputs
              else - 1)\<rparr>)"

fun pci_device_loop :: "int \<times> int \<times> int \<times> int \<Rightarrow> pci_device list \<Rightarrow> gpus \<Rightarrow> gpus option" where
  "pci_device_loop outs [] g = Some g"
| "pci_device_loop outs (info # rest) g =
     (if is_display_controller info then
        (if is_device_pci_passthrough info then pci_device_loop outs rest g
         else if nr_cards g \<ge> MAX_NR_CARDS then Some g
         else
           (case card_store g (nr_cards g) (Some (pci_to_device outs info)) of
              None \<Rightarrow> None
            | Some g' \<Rightarrow> pci_device_loop outs rest (g'\<lparr>nr_cards := nr_cards g' + 1\<rparr>)))
      else pci_device_loop outs rest g)"

definition get_current_devices :: "env \<Rightarrow> gpus \<Rightarrow> world \<Rightarrow> (int \<times> gpus) option" where
  "get_current_devices e g w =
     (if pci_system_init e \<noteq> 0 then Some (- pci_system_init e, g)
      else
        (case pci_devices e of
           None \<Rightarrow> Some (- 1, free_devices g)
         | Some infos \<Rightarrow>
             do {
               amdgpu_has_outputs \<leftarrow> has_driver_connected_outputs e ''amdgpu'' w;
               radeon_has_outputs \<leftarrow> has_driver_connected_outputs e ''radeon'' w;
               nouveau_has_outputs \<leftarrow> has_driver_connected_outputs e ''nouveau'' w;
               intel_has_outputs \<leftarrow> has_driver_connected_outputs e ''i915'' w;
               g' \<leftarrow> pci_device_loop
                       (amdgpu_has_outputs, radeon_has_outputs, nouveau_has_outputs, intel_has_outputs)
                       infos g;
               Some (0, g')
             }))"

section \<open>The facts about the kernel modules\<close>

definition is_module_blacklisted :: "env \<Rightarrow> config \<Rightarrow> string \<Rightarrow> world \<Rightarrow> bool option" where
  "is_module_blacklisted e cfg module w =
     (if dry_run cfg then
        (if exists_not_empty (modprobe_d_path cfg) w then
           map_option (\<lambda>match. match \<noteq> None)
             (get_output e
                (snprintf 100 (''grep -G '' @ quoted (''blacklist.*'' @ module @ ''[[:space:]]*$'') @
                               '' '' @ modprobe_d_path cfg)))
         else Some False)
      else
        (case get_output e
                (snprintf 100 (''grep -G '' @ quoted (''^blacklist.*'' @ module @ ''[[:space:]]*$'') @
                               '' '' @ modprobe_d_path cfg @ ''/*.conf'')) of
           None \<Rightarrow> None
         | Some (Some match) \<Rightarrow> Some True
         | Some None \<Rightarrow>
             map_option (\<lambda>match. match \<noteq> None)
               (get_output e
                  (snprintf 100 (''grep -G '' @ quoted (''^blacklist.*'' @ module @ ''[[:space:]]*$'') @
                                 '' '' @ ''/lib/modprobe.d'' @ ''/*.conf'')))))"

definition is_module_versioned :: "env \<Rightarrow> config \<Rightarrow> string \<Rightarrow> bool" where
  "is_module_versioned e cfg module_name = (if dry_run cfg then False else module_version e module_name \<noteq> None)"

definition is_module_available :: "env \<Rightarrow> string \<Rightarrow> bool" where
  "is_module_available e module =
     (case uname_release e of
        None \<Rightarrow> False
      | Some release \<Rightarrow>
          (case readdir e (''/lib/modules/'' @ release @ ''/updates/dkms'') of
             None \<Rightarrow> False
           | Some entries \<Rightarrow> list_ex (\<lambda>d_name. starts_with d_name module) entries))"

text \<open>
  The local variables of \<^verbatim>\<open>main\<close> that its decisions read, computed in the order of the
  source. The answers about \<^verbatim>\<open>radeon\<close> and the black lists are only logged, but the
  functions that give them are called.
\<close>

record facts =
  nvidia_loaded :: bool
  nvidia_unloaded :: bool
  intel_loaded :: bool
  amdgpu_loaded :: bool
  nouveau_loaded :: bool
  nvidia_kmod_available :: bool
  amdgpu_is_pro :: bool
  amdgpu_pro_px_installed :: bool

definition main_facts :: "env \<Rightarrow> config \<Rightarrow> world \<Rightarrow> facts option" where
  "main_facts e cfg w =
     do {
       nvidia_loaded' \<leftarrow> is_module_loaded ''nvidia'' w;
       nvidia_unloaded' \<leftarrow> (if nvidia_loaded' then Some False else has_unloaded_module cfg ''nvidia'' w);
       nvidia_blacklisted \<leftarrow> is_module_blacklisted e cfg ''nvidia'' w;
       i915_loaded \<leftarrow> is_module_loaded ''i915'' w;
       intel_loaded' \<leftarrow> (if i915_loaded then Some True else is_module_loaded ''i810'' w);
       radeon_loaded \<leftarrow> is_module_loaded ''radeon'' w;
       radeon_blacklisted \<leftarrow> is_module_blacklisted e cfg ''radeon'' w;
       amdgpu_loaded' \<leftarrow> is_module_loaded ''amdgpu'' w;
       amdgpu_blacklisted \<leftarrow> is_module_blacklisted e cfg ''amdgpu'' w;
       nouveau_loaded' \<leftarrow> is_module_loaded ''nouveau'' w;
       nouveau_blacklisted \<leftarrow> is_module_blacklisted e cfg ''nouveau'' w;
       Some
         (let amdgpu_versioned =
                (if fake_lspci_file cfg \<noteq> None then fake_module_versioned cfg \<noteq> 0
                 else is_module_versioned e cfg ''amdgpu'');
              nvidia_kmod_available' =
                (if fake_lspci_file cfg \<noteq> None then fake_module_available cfg \<noteq> 0
                 else is_module_available e ''nvidia'');
              amdgpu_kmod_available =
                (if fake_lspci_file cfg \<noteq> None then fake_module_available cfg \<noteq> 0
                 else is_module_available e ''amdgpu'')
          in \<lparr>nvidia_loaded = nvidia_loaded', nvidia_unloaded = nvidia_unloaded',
               intel_loaded = intel_loaded', amdgpu_loaded = amdgpu_loaded',
               nouveau_loaded = nouveau_loaded', nvidia_kmod_available = nvidia_kmod_available',
               amdgpu_is_pro = (amdgpu_kmod_available \<and> amdgpu_versioned),
               amdgpu_pro_px_installed = exists_not_empty (amdgpu_pro_px_file cfg) w\<rparr>)
     }"

section \<open>The actions of the policy\<close>

definition OFFLOADING_CONF :: string where
  "OFFLOADING_CONF = ''/var/lib/ubuntu-drivers-common/requires_offloading''"

definition set_offloading :: "env \<Rightarrow> config \<Rightarrow> world \<Rightarrow> bool \<times> world" where
  "set_offloading e cfg w =
     (if dry_run cfg then (True, w)
      else
        (case fopen_w e OFFLOADING_CONF w of
           Some w1 \<Rightarrow> (True, fputs OFFLOADING_CONF (''ON'' @ [newline]) w1)
         | None \<Rightarrow> (False, w)))"

definition run_amdgpu_pro_px :: "env \<Rightarrow> config \<Rightarrow> amdgpu_pro_px_action \<Rightarrow> world \<Rightarrow> bool \<times> world" where
  "run_amdgpu_pro_px e cfg action w =
     (let cmd = snprintf 100 (amdgpu_pro_px_file cfg @ '' --'' @
                  (case action of
                     MODE_POWERSAVING \<Rightarrow> ''mode powersaving''
                   | MODE_PERFORMANCE \<Rightarrow> ''mode performance''
                   | RESET \<Rightarrow> ''reset''
                   | ISPX \<Rightarrow> ''ispx''))
      in if dry_run cfg then (True, w)
         else (case run_system e cmd w of (status, w') \<Rightarrow> (status = 0, w')))"

text \<open>\<^verbatim>\<open>unlink(OFFLOADING_CONF)\<close> in \<^verbatim>\<open>main\<close>.\<close>

definition unlink_file :: "env \<Rightarrow> string \<Rightarrow> world \<Rightarrow> world" where
  "unlink_file e path w =
     (let w1 = record_event (Ev_unlink path) w in
      if files w1 path \<noteq> None \<and> can_write e path then w1\<lparr>files := (files w1)(path := None)\<rparr>
      else w1)"

text \<open>
  The loop of \<^verbatim>\<open>main\<close> that sets \<^verbatim>\<open>has_connected_outputs\<close> to \<open>-1\<close> in the devices read from
  the file given with \<^verbatim>\<open>--fake-lspci\<close>.
\<close>

function set_fake_outputs_from :: "gpus \<Rightarrow> int \<Rightarrow> gpus option" where
  "set_fake_outputs_from g i =
     (if i < nr_cards g then
        (case card_deref g i of
           None \<Rightarrow> None
         | Some d \<Rightarrow>
             set_fake_outputs_from
               (g\<lparr>cards := (cards g)[nat i := Some (d\<lparr>has_connected_outputs := - 1\<rparr>)]\<rparr>) (i + 1))
      else Some g)"
  by pat_completeness auto
termination
  by (relation "measure (\<lambda>(g, i). nat (nr_cards g - i))") auto

declare set_fake_outputs_from.simps [simp del]

section \<open>The main function\<close>

text \<open>
  \<^verbatim>\<open>main\<close> after \<^verbatim>\<open>parse_cmd_line\<close> has returned 0, in three parts. The first goes from the
  facts about the modules to the reading of the file of the last boot and gives the facts,
  the current inventory, the old one and the offloading flag, unless it ends the run
  (\<^verbatim>\<open>goto end\<close>). The second is the call of \<^verbatim>\<open>write_data_to_file\<close>. The third is the
  policy. The run always ends with exit status 0; its result here is the final state.
\<close>

datatype 'a step = Goto_end world | Go_on 'a

definition main_current_devices :: "env \<Rightarrow> config \<Rightarrow> world \<Rightarrow> (gpus \<times> int \<times> world) step option" where
  "main_current_devices e cfg w =
     (case fake_lspci_file cfg of
        Some fake \<Rightarrow>
          (case read_data_from_file e fake gpus_zero w of
             None \<Rightarrow> None
           | Some (status, current, w1) \<Rightarrow>
               if status = 0 then Some (Goto_end w1)
               else
                 (case set_fake_outputs_from current 0 of
                    None \<Rightarrow> None
                  | Some current' \<Rightarrow> Some (Go_on (current', fake_offloading cfg, w1))))
      | None \<Rightarrow>
          (case get_current_devices e gpus_zero w of
             None \<Rightarrow> None
           | Some (ret, current) \<Rightarrow>
               if ret \<noteq> 0 then Some (Goto_end w)
               else
                 (case requires_offloading current of
                    None \<Rightarrow> None
                  | Some offloading \<Rightarrow> Some (Go_on (current, if offloading then 1 else 0, w)))))"

definition main_detect ::
    "env \<Rightarrow> config \<Rightarrow> world \<Rightarrow> (facts \<times> gpus \<times> gpus \<times> int \<times> world) step option" where
  "main_detect e cfg w =
     (case main_facts e cfg w of
        None \<Rightarrow> None
      | Some fs \<Rightarrow>
          (case main_current_devices e cfg w of
             None \<Rightarrow> None
           | Some (Goto_end w1) \<Rightarrow> Some (Goto_end w1)
           | Some (Go_on (current, offloading, w1)) \<Rightarrow>
               (let w2 = (if \<not> offloading \<noteq> 0 \<and> \<not> dry_run cfg then unlink_file e OFFLOADING_CONF w1
                          else w1) in
                case read_data_from_file e (last_boot_file cfg) gpus_zero w2 of
                  None \<Rightarrow> None
                | Some (status, old, w3) \<Rightarrow>
                    if status = 0 then Some (Goto_end w3)
                    else Some (Go_on (fs, current, old, offloading, w3)))))"

text \<open>The call of \<^verbatim>\<open>enable_prime\<close> with \<^verbatim>\<open>set_offloading\<close> after its success.\<close>

definition try_enable_prime :: "env \<Rightarrow> config \<Rightarrow> device \<Rightarrow> world \<Rightarrow> world option" where
  "try_enable_prime e cfg discrete w =
     (case enable_prime e cfg (prime_settings cfg) discrete w of
        None \<Rightarrow> None
      | Some (enabled, w1) \<Rightarrow> Some (if enabled then snd (set_offloading e cfg w1) else w1))"

definition main_policy ::
    "env \<Rightarrow> config \<Rightarrow> facts \<Rightarrow> gpus \<Rightarrow> gpus \<Rightarrow> int \<Rightarrow> world \<Rightarrow> world option" where
  "main_policy e cfg fs old current offloading w =
     (case has_system_changed old current of
        None \<Rightarrow> None
      | Some has_changed \<Rightarrow>
          (case get_boot_vga current of
             None \<Rightarrow> None
           | Some None \<Rightarrow> Some w
           | Some (Some boot_device) \<Rightarrow>
               if nr_cards current = 1 then
                 (if vendor_id boot_device = INTEL then
                    (if offloading \<noteq> 0 \<and> nvidia_unloaded fs then
                       (case find_disabled_cards e (gpu_detection_path cfg) current w of
                          None \<Rightarrow> None
                        | Some (current', w1) \<Rightarrow>
                            (case get_first_discrete current' of
                               None \<Rightarrow> None
                             | Some None \<Rightarrow> Some w1
                             | Some (Some discrete_device) \<Rightarrow>
                                 try_enable_prime e cfg discrete_device w1))
                     else Some w)
                  else if vendor_id boot_device = AMD then
                    (if has_changed \<and> amdgpu_loaded fs \<and> amdgpu_is_pro fs \<and> amdgpu_pro_px_installed fs
                     then Some (snd (run_amdgpu_pro_px e cfg RESET w))
                     else Some w)
                  else if vendor_id boot_device = NVIDIA then
                    Some (snd (remove_offload_serverlayout e cfg w))
                  else Some w)
               else if nr_cards current > 1 then
                 (case get_first_discrete current of
                    None \<Rightarrow> None
                  | Some None \<Rightarrow> Some w
                  | Some (Some discrete_device) \<Rightarrow>
                      if vendor_id boot_device = INTEL then
                        (if has_changed \<and> amdgpu_loaded fs \<and> amdgpu_is_pro fs \<and>
                            amdgpu_pro_px_installed fs
                         then Some (snd (run_amdgpu_pro_px e cfg MODE_POWERSAVING w))
                         else if offloading \<noteq> 0 \<and>
                                 (intel_loaded fs \<and> \<not> nouveau_loaded fs \<and>
                                  (nvidia_loaded fs \<or> nvidia_kmod_available fs))
                         then try_enable_prime e cfg discrete_device w
                         else Some w)
                      else Some w)
               else Some w))"

definition main :: "env \<Rightarrow> config \<Rightarrow> world \<Rightarrow> world option" where
  "main e cfg w =
     (case main_detect e cfg w of
        None \<Rightarrow> None
      | Some (Goto_end w1) \<Rightarrow> Some w1
      | Some (Go_on (fs, current, old, offloading, w1)) \<Rightarrow>
          (case write_data_to_file e (new_boot_file cfg) current w1 of
             None \<Rightarrow> None
           | Some (status, w2) \<Rightarrow>
               if \<not> status then Some w2
               else main_policy e cfg fs old current offloading w2))"

section \<open>Observations on a run\<close>

text \<open>How often the named function has been entered.\<close>

definition calls :: "string \<Rightarrow> world \<Rightarrow> nat" where
  "calls name w = count_list (trace w) (Ev_call name)"

text \<open>
  Conditions on the environment: \<^verbatim>\<open>rmmod nvidia\<close> fails whatever the module list is; no
  external command takes a listed \<^verbatim>\<open>nvidia\<close> module off the list; a display session of
  \<^verbatim>\<open>gdm\<close> is found and the \<^verbatim>\<open>kill\<close> command for it succeeds.
\<close>

definition unload_always_fails :: "env \<Rightarrow> bool" where
  "unload_always_fails e \<longleftrightarrow> (\<forall>m. fst (command e ''/sbin/rmmod nvidia'' m) \<noteq> 0)"

definition nvidia_stays_loaded :: "env \<Rightarrow> bool" where
  "nvidia_stays_loaded e \<longleftrightarrow>
     (\<forall>cmd m. module_listed ''nvidia'' m = Some True \<longrightarrow>
        module_listed ''nvidia'' (snd (command e cmd m)) = Some True)"

definition session_kill_succeeds :: "env \<Rightarrow> bool" where
  "session_kill_succeeds e \<longleftrightarrow>
     0 < find_session_pid e [''Xwayland'', ''Xorg''] (- 1) \<and>
     (\<forall>m. fst (command e
               (snprintf 100 (''kill -KILL '' @ printf_ld (find_session_pid e [''Xwayland'', ''Xorg''] (- 1))))
               m) = 0)"

text \<open>The word occurs in the line, the case of the letters not counting.\<close>

definition contains_nocase :: "string \<Rightarrow> string \<Rightarrow> bool" where
  "contains_nocase line word \<longleftrightarrow> sublist (map toupper word) (map toupper line)"

text \<open>A state whose only file is the PRIME settings file, with the given text.\<close>

definition settings_world :: "string \<Rightarrow> world" where
  "settings_world text =
     \<lparr>files = (\<lambda>path. if path = ''/etc/prime-discrete'' then Some text else None),
      modules = None, trace = []\<rparr>"

section \<open>Well-formed inventories\<close>

text \<open>
  The invariant of an inventory: the array has its ten slots, the counter is between 0 and
  \<^verbatim>\<open>MAX_NR_CARDS\<close>, and the slots below the counter are not NULL.
\<close>

definition gpus_inv :: "gpus \<Rightarrow> bool" where
  "gpus_inv g \<longleftrightarrow>
     length (cards g) = 10 \<and> 0 \<le> nr_cards g \<and> nr_cards g \<le> MAX_NR_CARDS \<and>
     (\<forall>i < nat (nr_cards g). cards g ! i \<noteq> None)"

text \<open>The devices of an inventory, in order: the slots below the counter.\<close>

definition devices_of :: "gpus \<Rightarrow> device list" where
  "devices_of g = map the (take (nat (nr_cards g)) (cards g))"

text \<open>The fields of a device that the state file holds; the connectivity is not one.\<close>

definition persisted :: "device \<Rightarrow> c_uint \<times> c_uint \<times> c_uint \<times> c_uint \<times> c_uint \<times> c_uint \<times> c_int" where
  "persisted d = (vendor_id d, device_id d, domain d, bus d, dev d, func d, boot_vga d)"

text \<open>
  The devices whose fields fill no more than the widths of the format: four hexadecimal
  digits for the vendor id, the device id and the domain, two for the bus and the slot.
\<close>

definition fits_format :: "device \<Rightarrow> bool" where
  "fits_format d \<longleftrightarrow>
     vendor_id d \<le> 0xFFFF \<and> device_id d \<le> 0xFFFF \<and> domain d \<le> 0xFFFF \<and>
     bus d \<le> 0xFF \<and> dev d \<le> 0xFF"

section \<open>Example inventories\<close>

text \<open>An Intel adapter that is the boot display, with and without a connected output.\<close>

definition intel_igp :: device where
  "intel_igp =
     \<lparr>boot_vga = 1, vendor_id = 0x8086, device_id = 0x0416, domain = 0, bus = 0, dev = 2,
      func = 0, has_connected_outputs = 1\<rparr>"

definition example_plugged :: gpus where
  "example_plugged = \<lparr>cards = Some intel_igp # replicate 9 None, nr_cards = 1\<rparr>"

definition example_unplugged :: gpus where
  "example_unplugged =
     \<lparr>cards = Some (intel_igp\<lparr>has_connected_outputs := 0\<rparr>) # replicate 9 None, nr_cards = 1\<rparr>"

text \<open>
  An NVIDIA adapter in PCI domain \<^verbatim>\<open>0x10000\<close>: \<^verbatim>\<open>libpciaccess\<close> reports domains of 32 bits, and
  \<^verbatim>\<open>get_current_devices\<close> copies them as they are.
\<close>

definition nvidia_wide_domain :: device where
  "nvidia_wide_domain =
     \<lparr>boot_vga = 0, vendor_id = 0x10DE, device_id = 0x1140, domain = 0x10000, bus = 1, dev = 0,
      func = 0, has_connected_outputs = 0\<rparr>"

definition example_wide_domain :: gpus where
  "example_wide_domain = \<lparr>cards = Some nvidia_wide_domain # replicate 9 None, nr_cards = 1\<rparr>"

text \<open>
  An environment in which every path can be read and written and every external command
  succeeds without effect, one in which no path can be written, and a state with no file.
\<close>

definition example_env :: env where
  "example_env =
     \<lparr>can_read = (\<lambda>path. True), can_write = (\<lambda>path. True), junk = (\<lambda>i. 0),
      command = (\<lambda>cmd m. (0, m)), pipe_output = (\<lambda>cmd. None), readdir = (\<lambda>path. None),
      drm_version = (\<lambda>node. None), gdm_session_pid = (\<lambda>server. - 1),
      module_version = (\<lambda>module. None), uname_release = None, pci_system_init = 0,
      pci_devices = Some []\<rparr>"

definition read_only_env :: env where
  "read_only_env = example_env\<lparr>can_write := (\<lambda>path. False)\<rparr>"

definition empty_world :: world where
  "empty_world = \<lparr>files = (\<lambda>path. None), modules = None, trace = []\<rparr>"

text \<open>
  A configuration with the default paths, an NVIDIA adapter, a module list that holds the
  \<^verbatim>\<open>nvidia\<close> module, and two environments in which every \<^verbatim>\<open>rmmod\<close> fails and leaves the
  module list as it is: in the first no display session of \<^verbatim>\<open>gdm\<close> is found, in the second
  one is found and killed.
\<close>

definition example_config :: config where
  "example_config =
     \<lparr>dry_run = False, fake_offloading = 0, fake_module_available = 0,
      fake_module_versioned = 0,
      last_boot_file = ''/var/lib/ubuntu-drivers-common/last_gfx_boot'',
      new_boot_file = ''/var/lib/ubuntu-drivers-common/last_gfx_boot'',
      fake_lspci_file = None, gpu_detection_path = ''/run'',
      prime_settings = ''/etc/prime-discrete'',
      xorg_conf_d_path = ''/usr/share/X11/xorg.conf.d'',
      amdgpu_pro_px_file = ''/opt/amdgpu-pro/bin/amdgpu-pro-px'',
      modprobe_d_path = ''/etc/modprobe.d''\<rparr>"

definition nvidia_dgpu :: device where
  "nvidia_dgpu =
     \<lparr>boot_vga = 0, vendor_id = 0x10DE, device_id = 0x1140, domain = 0, bus = 1, dev = 0,
      func = 0, has_connected_outputs = 0\<rparr>"

definition nvidia_loaded_world :: world where
  "nvidia_loaded_world =
     \<lparr>files = (\<lambda>path. None), modules = Some (''nvidia 1 0 - Live'' @ [newline]), trace = []\<rparr>"

definition busy_env :: env where
  "busy_env = example_env\<lparr>command := (\<lambda>cmd m. (1, m))\<rparr>"

definition busy_killable_env :: env where
  "busy_killable_env =
     example_env\<lparr>command := (\<lambda>cmd m. (if starts_with cmd ''kill'' then 0 else 1, m)),
                  gdm_session_pid := (\<lambda>server. 1234)\<rparr>"

text \<open>
  The name of the marker file of a disabled device, after the comment in
  \<^verbatim>\<open>add_gpu_from_file\<close> (\<^verbatim>\<open>u-d-c-gpu-0000:09:00.0-0x10de-0x1140\<close>), and a directory \<^verbatim>\<open>/run\<close>
  with the markers of ten devices.
\<close>

definition marker_name :: "device \<Rightarrow> string" where
  "marker_name d =
     ''u-d-c-gpu-'' @ printf_0x 4 (domain d) @ '':'' @ printf_0x 2 (bus d) @ '':'' @
     printf_0x 2 (dev d) @ ''.'' @ printf_d (func d) @ ''-0x'' @ printf_0x 4 (vendor_id d) @
     ''-0x'' @ printf_0x 4 (device_id d)"

definition ten_markers :: "string list" where
  "ten_markers =
     [''u-d-c-gpu-0000:01:00.0-0x10de-0x1140'', ''u-d-c-gpu-0000:02:00.0-0x10de-0x1140'',
      ''u-d-c-gpu-0000:03:00.0-0x10de-0x1140'', ''u-d-c-gpu-0000:04:00.0-0x10de-0x1140'',
      ''u-d-c-gpu-0000:05:00.0-0x10de-0x1140'', ''u-d-c-gpu-0000:06:00.0-0x10de-0x1140'',
      ''u-d-c-gpu-0000:07:00.0-0x10de-0x1140'', ''u-d-c-gpu-0000:08:00.0-0x10de-0x1140'',
      ''u-d-c-gpu-0000:09:00.0-0x10de-0x1140'', ''u-d-c-gpu-0000:0a:00.0-0x10de-0x1140'']"

definition crowded_env :: env where
  "crowded_env = example_env\<lparr>readdir := (\<lambda>path. if path = ''/run'' then Some ten_markers else None)\<rparr>"

section \<open>Properties of the comparison\<close>

lemma card_deref_inv:
  "gpus_inv g \<Longrightarrow> 0 \<le> i \<Longrightarrow> i < nr_cards g \<Longrightarrow> \<exists>d. card_deref g i = Some d \<and> cards g ! nat i = Some d"
  by (auto simp: gpus_inv_def card_deref_def MAX_NR_CARDS_def)

lemma card_differs_persisted: "card_differs p c \<longleftrightarrow> persisted p \<noteq> persisted c"
  by (auto simp: card_differs_def persisted_def)

lemma has_system_changed_from_inv:
  "gpus_inv prev \<Longrightarrow> gpus_inv current \<Longrightarrow> nr_cards prev = nr_cards current \<Longrightarrow> 0 \<le> i \<Longrightarrow>
   has_system_changed_from prev current i =
     Some (\<exists>j. i \<le> j \<and> j < nr_cards prev \<and>
            persisted (the (cards prev ! nat j)) \<noteq> persisted (the (cards current ! nat j)))"
proof (induction prev current i rule: has_system_changed_from.induct)
  case (1 prev current i)
  show ?case
  proof (cases "i < nr_cards prev")
    case False
    then show ?thesis
      by (subst has_system_changed_from.simps) auto
  next
    case True
    obtain p where p: "card_deref prev i = Some p" "cards prev ! nat i = Some p"
      using card_deref_inv [OF "1.prems"(1) "1.prems"(4) True] by blast
    obtain c where c: "card_deref current i = Some c" "cards current ! nat i = Some c"
      using card_deref_inv [OF "1.prems"(2) "1.prems"(4)] True "1.prems"(3) by auto
    show ?thesis
    proof (cases "card_differs p c")
      case d: True
      then have "persisted (the (cards prev ! nat i)) \<noteq> persisted (the (cards current ! nat i))"
        using p c by (simp add: card_differs_persisted)
      then have "\<exists>j. i \<le> j \<and> j < nr_cards prev \<and>
            persisted (the (cards prev ! nat j)) \<noteq> persisted (the (cards current ! nat j))"
        using True by (intro exI [of _ i]) simp
      then show ?thesis
        using True p c d by (subst has_system_changed_from.simps) simp
    next
      case d: False
      have ih: "has_system_changed_from prev current (i + 1) =
         Some (\<exists>j. i + 1 \<le> j \<and> j < nr_cards prev \<and>
            persisted (the (cards prev ! nat j)) \<noteq> persisted (the (cards current ! nat j)))"
        using "1.IH" [OF True p(1) c(1) d "1.prems"(1,2,3)] "1.prems"(4) by simp
      have same: "persisted (the (cards prev ! nat i)) = persisted (the (cards current ! nat i))"
        using d p c by (simp add: card_differs_persisted)
      have "(\<exists>j. i + 1 \<le> j \<and> j < nr_cards prev \<and>
            persisted (the (cards prev ! nat j)) \<noteq> persisted (the (cards current ! nat j))) =
          (\<exists>j. i \<le> j \<and> j < nr_cards prev \<and>
            persisted (the (cards prev ! nat j)) \<noteq> persisted (the (cards current ! nat j)))"
      proof -
        have "\<And>j. i \<le> j \<Longrightarrow> persisted (the (cards prev ! nat j)) \<noteq> persisted (the (cards current ! nat j)) \<Longrightarrow> i + 1 \<le> j"
          using same by (metis add1_zle_eq order_le_less)
        then show ?thesis by (metis add1_zle_eq order_less_imp_le)
      qed
      then show ?thesis
        using True p c d ih by (subst has_system_changed_from.simps) simp
    qed
  qed
qed

lemma has_system_changed_eq:
  assumes "gpus_inv prev" and "gpus_inv current"
  shows "has_system_changed prev current =
           Some (nr_cards prev \<noteq> nr_cards current \<or>
                 (\<exists>i < nat (nr_cards prev).
                    persisted (the (cards prev ! i)) \<noteq> persisted (the (cards current ! i))))"
proof (cases "nr_cards prev = nr_cards current")
  case False
  then show ?thesis by (simp add: has_system_changed_def)
next
  case True
  have "(\<exists>j. 0 \<le> j \<and> j < nr_cards prev \<and>
            persisted (the (cards prev ! nat j)) \<noteq> persisted (the (cards current ! nat j))) =
        (\<exists>i < nat (nr_cards prev).
            persisted (the (cards prev ! i)) \<noteq> persisted (the (cards current ! i)))"
    (is "?L = ?R")
  proof
    assume ?L
    then obtain j where "0 \<le> j" "j < nr_cards prev"
       "persisted (the (cards prev ! nat j)) \<noteq> persisted (the (cards current ! nat j))" by blast
    then show ?R by (intro exI [of _ "nat j"]) auto
  next
    assume ?R
    then obtain i where "i < nat (nr_cards prev)"
       "persisted (the (cards prev ! i)) \<noteq> persisted (the (cards current ! i))" by blast
    then show ?L by (intro exI [of _ "int i"]) auto
  qed
  then show ?thesis
    using True has_system_changed_from_inv [OF assms True, of 0]
    by (simp add: has_system_changed_def)
qed

text \<open>
  Claim C1. For two well-formed inventories, \<^verbatim>\<open>has_system_changed\<close> returns true when
  the numbers of cards differ; with equal numbers it returns true exactly when at some
  position the boot-vga flag, the vendor id, the device id or a component of the bus
  address differs. The field \<^verbatim>\<open>has_connected_outputs\<close> has no part in the result: with
  equal numbers and equal persisted fields at every position the result is false.
\<close>

theorem has_system_changed_spec:
  assumes "gpus_inv prev" and "gpus_inv current"
  shows "has_system_changed prev current =
           Some (nr_cards prev \<noteq> nr_cards current \<or>
                 (\<exists>i < nat (nr_cards prev).
                    persisted (the (cards prev ! i)) \<noteq> persisted (the (cards current ! i)))) \<and>
         (nr_cards prev = nr_cards current \<and>
          (\<forall>i < nat (nr_cards prev).
             persisted (the (cards prev ! i)) = persisted (the (cards current ! i))) \<longrightarrow>
          has_system_changed prev current = Some False)"
  by (simp add: has_system_changed_eq [OF assms])

theorem has_system_changed_spec_witness:
  "gpus_inv example_plugged \<and> gpus_inv example_unplugged \<and>
   cards example_plugged \<noteq> cards example_unplugged \<and>
   has_system_changed example_plugged example_unplugged = Some False \<and>
   has_system_changed gpus_zero example_plugged = Some True"
proof -
  have a: "gpus_inv example_plugged"
    by (simp add: gpus_inv_def example_plugged_def MAX_NR_CARDS_def)
  have b: "gpus_inv example_unplugged"
    by (simp add: gpus_inv_def example_unplugged_def MAX_NR_CARDS_def)
  have z: "gpus_inv gpus_zero"
    by (simp add: gpus_inv_def gpus_zero_def MAX_NR_CARDS_def)
  have c: "cards example_plugged \<noteq> cards example_unplugged"
    by (simp add: example_plugged_def example_unplugged_def intel_igp_def)
  show ?thesis
    using a b c has_system_changed_spec [OF a b] has_system_changed_spec [OF z a]
    by (simp add: example_plugged_def example_unplugged_def gpus_zero_def persisted_def intel_igp_def)
qed

section \<open>Printing and scanning numbers\<close>

lemma digit_char_cases:
  "d < 16 \<Longrightarrow> d = 0 \<or> d = 1 \<or> d = 2 \<or> d = 3 \<or> d = 4 \<or> d = 5 \<or> d = 6 \<or> d = 7 \<or> d = 8 \<or>
     d = 9 \<or> d = 10 \<or> d = 11 \<or> d = 12 \<or> d = 13 \<or> d = 14 \<or> d = (15::nat)"
  by arith

lemma digit_val_digit_char: "d < 16 \<Longrightarrow> digit_val (digit_char d) = d"
  using digit_char_cases [of d] by (auto simp: digit_val_def digit_char_def)

lemma isxdigit_digit_char: "d < 16 \<Longrightarrow> isxdigit (digit_char d)"
  using digit_char_cases [of d] by (auto simp: isxdigit_def digit_char_def)

lemma isdigit_digit_char: "d < 10 \<Longrightarrow> isdigit (digit_char d)"
  using digit_char_cases [of d] by (auto simp: isdigit_def digit_char_def)

lemma of_char_toupper:
  "(of_char (toupper c) :: nat) =
     (if 97 \<le> (of_char c :: nat) \<and> (of_char c :: nat) \<le> 122 then of_char c - 32 else of_char c)"
  by (auto simp: toupper_def Let_def)

lemma isxdigit_not_space: "isxdigit c \<Longrightarrow> \<not> isspace c"
  by (auto simp: isxdigit_def isspace_def Let_def)

lemma isxdigit_not_sign: "isxdigit c \<Longrightarrow> c \<noteq> CHR ''-'' \<and> c \<noteq> CHR ''+''"
  by (auto simp: isxdigit_def)

lemma isxdigit_not_x: "isxdigit c \<Longrightarrow> toupper c \<noteq> CHR ''X''"
proof
  assume x: "isxdigit c" and "toupper c = CHR ''X''"
  then have "(of_char (toupper c) :: nat) = 88" by simp
  then show False
    using x unfolding of_char_toupper by (auto simp: isxdigit_def Let_def split: if_splits)
qed

lemma isxdigit_not_newline: "isxdigit c \<Longrightarrow> c \<noteq> newline \<and> c \<noteq> NUL"
  by (auto simp: isxdigit_def newline_def NUL_def)

lemma isdigit_isxdigit: "isdigit c \<Longrightarrow> isxdigit c"
  by (auto simp: isdigit_def isxdigit_def Let_def)

lemma digits_of_bound: "2 \<le> b \<Longrightarrow> \<forall>d \<in> set (digits_of b n). d < b"
proof (induction b n rule: digits_of.induct)
  case (1 b n)
  show ?case
  proof (cases "n < b \<or> b < 2")
    case True
    with "1.prems" show ?thesis by (subst digits_of.simps) auto
  next
    case False
    with "1.IH" "1.prems" show ?thesis by (subst digits_of.simps) auto
  qed
qed

lemma digits_of_nonempty: "digits_of b n \<noteq> []"
  by (subst digits_of.simps) auto

lemma digits_of_length: "2 \<le> b \<Longrightarrow> 0 < k \<Longrightarrow> n < b ^ k \<Longrightarrow> length (digits_of b n) \<le> k"
proof (induction b n arbitrary: k rule: digits_of.induct)
  case (1 b n)
  show ?case
  proof (cases "n < b \<or> b < 2")
    case True
    with "1.prems" show ?thesis by (subst digits_of.simps) auto
  next
    case False
    then have nb: "b \<le> n" by simp
    obtain k' where k: "k = Suc k'" using "1.prems"(2) by (cases k) auto
    have "k' \<noteq> 0" using "1.prems"(3) nb k by (cases k') auto
    moreover have "n div b < b ^ k'"
      using "1.prems"(3) k "1.prems"(1)
      by (simp add: less_mult_imp_div_less mult.commute)
    ultimately have "length (digits_of b (n div b)) \<le> k'"
      using "1.IH" [OF False "1.prems"(1), of k'] by simp
    with False k show ?thesis by (subst digits_of.simps) auto
  qed
qed

lemma digits_value_append:
  "digits_value b (xs @ [c]) = digits_value b xs * b + int (digit_val c)"
  by (simp add: digits_value_def)

lemma digits_value_digits_of:
  "2 \<le> b \<Longrightarrow> b \<le> 16 \<Longrightarrow> digits_value (int b) (map digit_char (digits_of b n)) = int n"
proof (induction b n rule: digits_of.induct)
  case (1 b n)
  show ?case
  proof (cases "n < b \<or> b < 2")
    case True
    with "1.prems" show ?thesis
      by (subst digits_of.simps) (auto simp: digits_value_def digit_val_digit_char)
  next
    case False
    have "n mod b < b" using "1.prems" by simp
    then have m: "n mod b < 16" using "1.prems"(2) by linarith
    have "digits_value (int b) (map digit_char (digits_of b (n div b))) = int (n div b)"
      using "1.IH" [OF False "1.prems"] .
    then have "digits_value (int b) (map digit_char (digits_of b (n div b) @ [n mod b])) =
        int (n div b) * int b + int (n mod b)"
      by (simp add: digits_value_append digit_val_digit_char [OF m])
    also have "\<dots> = int n"
      by (metis div_mult_mod_eq of_nat_add of_nat_mult)
    finally show ?thesis using False by (subst digits_of.simps) simp
  qed
qed

lemma digits_value_zeros:
  "digits_value b (replicate k (CHR ''0'') @ ds) = digits_value b ds"
proof -
  have "\<And>acc. foldl (\<lambda>acc c. acc * b + int (digit_val c)) acc (replicate k (CHR ''0'')) = acc * b ^ k"
    by (induction k) (auto simp: digit_val_def)
  then show ?thesis by (simp add: digits_value_def)
qed


lemma takeWhile_stop:
  "(\<And>x. x \<in> set xs \<Longrightarrow> P x) \<Longrightarrow> rest = [] \<or> \<not> P (hd rest) \<Longrightarrow> takeWhile P (xs @ rest) = xs"
  by (cases rest) (auto simp: takeWhile_append2)

lemma scan_hex_exact:
  assumes "D \<noteq> []" and x: "\<And>c. c \<in> set D \<Longrightarrow> isxdigit c"
  shows "scan_int True (Some (length D)) (D @ rest) = Conv (strtoul_value False 16 D) rest"
proof -
  obtain c cs where D: "D = c # cs" using assms(1) by (cases D) auto
  have c: "isxdigit c" and cs: "\<And>y. y \<in> set cs \<Longrightarrow> isxdigit y" using x D by auto
  have sp: "\<not> isspace c" and sg: "c \<noteq> CHR ''-''" "c \<noteq> CHR ''+''"
    using isxdigit_not_space [OF c] isxdigit_not_sign [OF c] by auto
  have tk: "takeWhile isxdigit (take (length cs) (cs @ rest)) = cs"
    using cs by (simp add: takeWhile_eq_all_conv [THEN iffD2])
  have tk2: "takeWhile isxdigit (take (Suc (length cs)) (c # cs @ rest)) = c # cs"
    using c tk by simp
  show ?thesis
  proof (cases "c = CHR ''0''")
    case True
    show ?thesis
    proof (cases cs)
      case Nil
      then show ?thesis
        unfolding scan_int_def D using sp True
        by (simp add: Let_def width_left_def width_dec_def width_take_def)
    next
      case (Cons y ys)
      have y: "toupper y \<noteq> CHR ''X''" using isxdigit_not_x [OF cs [of y]] Cons by simp
      have "takeWhile isxdigit (take (Suc (length ys)) (y # ys @ rest)) = y # ys"
        using tk Cons by simp
      then show ?thesis
        unfolding scan_int_def D Cons using sp True y
        by (simp add: Let_def width_left_def width_dec_def width_take_def)
    qed
  next
    case False
    have tw: "takeWhile isxdigit cs = cs"
      using cs by (simp add: takeWhile_eq_all_conv)
    show ?thesis
      unfolding scan_int_def D using sp sg False c cs
      by (simp add: Let_def width_left_def width_dec_def width_take_def
            takeWhile_eq_all_conv [THEN iffD2])
  qed
qed

lemma scan_dec_plain:
  assumes "D \<noteq> []" and x: "\<And>c. c \<in> set D \<Longrightarrow> isdigit c" and r: "rest = [] \<or> \<not> isdigit (hd rest)"
  shows "scan_int False None (D @ rest) = Conv (word_of_int (strtol_clamp False 10 D)) rest"
proof -
  obtain c cs where D: "D = c # cs" using assms(1) by (cases D) auto
  have c: "isdigit c" and cs: "\<And>y. y \<in> set cs \<Longrightarrow> isdigit y" using x D by auto
  have sp: "\<not> isspace c" and sg: "c \<noteq> CHR ''-''" "c \<noteq> CHR ''+''"
    using isxdigit_not_space [OF isdigit_isxdigit [OF c]] isxdigit_not_sign [OF isdigit_isxdigit [OF c]] by auto
  have tk: "takeWhile isdigit (cs @ rest) = cs"
    using takeWhile_stop [of cs isdigit rest] cs r by blast
  have tk2: "takeWhile isdigit (c # cs @ rest) = c # cs"
    using c tk by simp
  show ?thesis
  proof (cases "c = CHR ''0''")
    case True
    show ?thesis
      unfolding scan_int_def D using sp sg True tk
      by (simp add: Let_def width_left_def width_dec_def width_take_def)
  next
    case False
    show ?thesis
      unfolding scan_int_def D using sp sg False tk2
      by (simp add: Let_def width_left_def width_dec_def width_take_def)
  qed
qed

lemma scan_dec_minus:
  assumes "D \<noteq> []" and x: "\<And>c. c \<in> set D \<Longrightarrow> isdigit c" and r: "rest = [] \<or> \<not> isdigit (hd rest)"
  shows "scan_int False None (CHR ''-'' # D @ rest) = Conv (word_of_int (strtol_clamp True 10 D)) rest"
proof -
  obtain c cs where D: "D = c # cs" using assms(1) by (cases D) auto
  have c: "isdigit c" and cs: "\<And>y. y \<in> set cs \<Longrightarrow> isdigit y" using x D by auto
  have sp: "\<not> isspace (CHR ''-'')" by (simp add: isspace_def)
  have tk: "takeWhile isdigit (cs @ rest) = cs"
    using takeWhile_stop [of cs isdigit rest] cs r by blast
  have tk2: "takeWhile isdigit (c # cs @ rest) = c # cs"
    using c tk by simp
  show ?thesis
  proof (cases "c = CHR ''0''")
    case True
    show ?thesis
      unfolding scan_int_def D using sp True tk
      by (simp add: Let_def width_left_def width_dec_def width_take_def)
  next
    case False
    show ?thesis
      unfolding scan_int_def D using sp False tk2
      by (simp add: Let_def width_left_def width_dec_def width_take_def)
  qed
qed

lemma printf_0x_length: "0 < w \<Longrightarrow> unat v < 16 ^ w \<Longrightarrow> length (printf_0x w v) = w"
  using digits_of_length [of 16 w "unat v"] by (simp add: printf_0x_def Let_def)

lemma printf_0x_isxdigit: "c \<in> set (printf_0x w v) \<Longrightarrow> isxdigit c"
  using digits_of_bound [of 16 "unat v"]
  by (auto simp: printf_0x_def Let_def isxdigit_digit_char) (simp add: isxdigit_def)

lemma printf_0x_value: "strtoul_value False 16 (printf_0x w v) = v"
proof -
  have "digits_value 16 (printf_0x w v) = int (unat v)"
    using digits_value_digits_of [of 16 "unat v"] by (simp add: printf_0x_def Let_def digits_value_zeros)
  moreover have "int (unat v) < 2 ^ 64"
    using unsigned_less [of v, where 'a = int] by simp
  ultimately show ?thesis by (simp add: strtoul_value_def Let_def)
qed

lemma scan_printf_0x:
  assumes "0 < w" and "unat v < 16 ^ w"
  shows "scan_int True (Some w) (printf_0x w v @ rest) = Conv v rest"
proof -
  have ne: "printf_0x w v \<noteq> []" using printf_0x_length [OF assms] assms(1) by auto
  show ?thesis
    using scan_hex_exact [of "printf_0x w v" rest, OF ne printf_0x_isxdigit]
    by (simp add: printf_0x_length [OF assms] printf_0x_value)
qed

lemma printf_ld_cases:
  "printf_ld i = (if i < 0 then CHR ''-'' # map digit_char (digits_of 10 (nat (- i)))
      else map digit_char (digits_of 10 (nat i)))"
  by (simp add: printf_ld_def)

lemma dec_digits_isdigit: "c \<in> set (map digit_char (digits_of 10 n)) \<Longrightarrow> isdigit c"
  using digits_of_bound [of 10 n] by (auto simp: isdigit_digit_char)

lemma scan_printf_d:
  assumes r: "rest = [] \<or> \<not> isdigit (hd rest)"
  shows "scan_int False None (printf_d v @ rest) = Conv v rest"
proof -
  have rng: "- (2 ^ 31) \<le> sint v" "sint v < 2 ^ 31"
    using sint_ge [of v] sint_lt [of v] by simp_all
  show ?thesis
  proof (cases "sint v < 0")
    case True
    let ?D = "map digit_char (digits_of 10 (nat (- sint v)))"
    have ne: "?D \<noteq> []" by (simp add: digits_of_nonempty)
    have val: "digits_value 10 ?D = - sint v"
      using digits_value_digits_of [of 10 "nat (- sint v)"] True by simp
    have "strtol_clamp True 10 ?D = sint v"
      using rng by (simp add: strtol_clamp_def val Let_def)
    then show ?thesis
      using scan_dec_minus [OF ne dec_digits_isdigit r] True
      by (simp add: printf_d_def printf_ld_def)
  next
    case False
    let ?D = "map digit_char (digits_of 10 (nat (sint v)))"
    have ne: "?D \<noteq> []" by (simp add: digits_of_nonempty)
    have val: "digits_value 10 ?D = sint v"
      using digits_value_digits_of [of 10 "nat (sint v)"] False by simp
    have "strtol_clamp False 10 ?D = sint v"
      using rng by (simp add: strtol_clamp_def val Let_def)
    then show ?thesis
      using scan_dec_plain [OF ne dec_digits_isdigit r] False
      by (simp add: printf_d_def printf_ld_def)
  qed
qed

lemma fits_format_unat:
  assumes "fits_format d"
  shows "unat (vendor_id d) < 65536" "unat (device_id d) < 65536" "unat (domain d) < 65536"
    "unat (bus d) < 256" "unat (dev d) < 256"
  using assms by (simp_all add: fits_format_def word_le_nat_alt)

lemma not_isdigit_sep: "\<not> isdigit (CHR '';'')" "\<not> isdigit newline"
  by (simp_all add: isdigit_def newline_def)

lemma isspace_newline: "isspace newline"
  by (simp add: isspace_def newline_def)

lemma scan_printf_04x: "unat v < 65536 \<Longrightarrow> scan_int True (Some 4) (printf_0x 4 v @ rest) = Conv v rest"
  by (rule scan_printf_0x) simp_all

lemma scan_printf_02x: "unat v < 256 \<Longrightarrow> scan_int True (Some 2) (printf_0x 2 v @ rest) = Conv v rest"
  by (rule scan_printf_0x) simp_all

lemma run_scanf_boot_line:
  assumes "fits_format d"
  shows "run_scanf boot_format (boot_line d) [] =
    (7, [vendor_id d, device_id d, domain d, bus d, dev d, func d, boot_vga d])"
  unfolding boot_line_def boot_format_def
  by (simp add: scan_printf_04x scan_printf_02x fits_format_unat [OF assms] scan_printf_d
        not_isdigit_sep isspace_newline)

lemma printf_d_chars: "c \<in> set (printf_d v) \<Longrightarrow> c = CHR ''-'' \<or> isdigit c"
  using dec_digits_isdigit by (auto simp: printf_d_def printf_ld_def split: if_splits)

lemma printf_d_length: "length (printf_d v) \<le> 11"
proof -
  have rng: "- (2 ^ 31) \<le> sint v" "sint v < 2 ^ 31"
    using sint_ge [of v] sint_lt [of v] by simp_all
  have a: "length (digits_of 10 (nat (- sint v))) \<le> 10"
    by (rule digits_of_length) (use rng in auto)
  have b: "length (digits_of 10 (nat (sint v))) \<le> 10"
    by (rule digits_of_length) (use rng in auto)
  show ?thesis using a b by (simp add: printf_d_def printf_ld_def)
qed

lemma boot_line_chars:
  assumes "c \<in> set (boot_line d)"
  shows "c = newline \<or> c = CHR '':'' \<or> c = CHR '';'' \<or> c = CHR ''-'' \<or> isxdigit c"
  using assms
  by (auto simp: boot_line_def dest!: printf_d_chars dest: printf_0x_isxdigit isdigit_isxdigit)

lemma boot_line_shape:
  assumes "fits_format d"
  shows "\<exists>body. boot_line d = body @ [newline] \<and> newline \<notin> set body \<and> NUL \<notin> set (boot_line d) \<and>
           length body < 99"
proof -
  let ?body = "printf_0x 4 (vendor_id d) @ '':'' @ printf_0x 4 (device_id d) @ '';'' @
     printf_0x 4 (domain d) @ '':'' @ printf_0x 2 (bus d) @ '':'' @ printf_0x 2 (dev d) @ '':'' @
     printf_d (func d) @ '';'' @ printf_d (boot_vga d)"
  have eq: "boot_line d = ?body @ [newline]" by (simp add: boot_line_def)
  have nn: "newline \<notin> set ?body"
  proof
    assume "newline \<in> set ?body"
    then consider v w where "newline \<in> set (printf_0x w v)" | v where "newline \<in> set (printf_d v)"
      by (auto simp: newline_def)
    then show False
    proof cases
      case 1
      then show False using printf_0x_isxdigit isxdigit_not_newline by blast
    next
      case 2
      then show False using printf_d_chars [of newline v] isxdigit_not_newline isdigit_isxdigit
        by (auto simp: newline_def)
    qed
  qed
  have nul: "NUL \<notin> set (boot_line d)"
  proof
    assume "NUL \<in> set (boot_line d)"
    from boot_line_chars [OF this] show False
      using isxdigit_not_newline [of NUL] by (auto simp: NUL_def newline_def)
  qed
  have len: "length ?body < 99"
    using fits_format_unat [OF assms] printf_d_length [of "func d"] printf_d_length [of "boot_vga d"]
    by (simp add: printf_0x_length)
  show ?thesis using eq nn nul len by blast
qed

lemma fgets_split_line:
  "newline \<notin> set body \<Longrightarrow> length body < k \<Longrightarrow>
   fgets_split k (body @ newline # rest) = (body @ [newline], rest)"
proof (induction body arbitrary: k)
  case Nil
  then show ?case by simp
next
  case (Cons a body)
  then obtain k' where k: "k = Suc k'" by (cases k) auto
  with Cons show ?case by auto
qed

lemma file_chunks_boot_line:
  assumes "fits_format d"
  shows "file_chunks 100 (boot_line d @ rest) = boot_line d # file_chunks 100 rest"
proof -
  obtain body where b: "boot_line d = body @ [newline]" "newline \<notin> set body" "length body < 99"
    using boot_line_shape [OF assms] by blast
  have "fgets_split 99 (body @ newline # rest) = (body @ [newline], rest)"
    using fgets_split_line [OF b(2,3)] .
  then show ?thesis
    by (subst file_chunks.simps) (simp add: b(1))
qed

lemma c_str_boot_line:
  assumes "fits_format d"
  shows "c_str (boot_line d) = boot_line d" "0 < length (boot_line d)"
proof -
  have "NUL \<notin> set (boot_line d)" using boot_line_shape [OF assms] by blast
  then show "c_str (boot_line d) = boot_line d"
    by (auto simp: c_str_def takeWhile_eq_all_conv [THEN iffD2])
  show "0 < length (boot_line d)" by (simp add: boot_line_def)
qed

section \<open>The state file\<close>

lemma devices_of_length: "gpus_inv g \<Longrightarrow> length (devices_of g) = nat (nr_cards g)"
  by (auto simp: devices_of_def gpus_inv_def MAX_NR_CARDS_def min_def)

lemma devices_of_nth:
  "gpus_inv g \<Longrightarrow> i < nat (nr_cards g) \<Longrightarrow> devices_of g ! i = the (cards g ! i)"
  by (auto simp: devices_of_def gpus_inv_def MAX_NR_CARDS_def)

lemma card_deref_devices_of:
  assumes "gpus_inv g" "0 \<le> i" "i < nr_cards g"
  shows "card_deref g i = Some (devices_of g ! nat i)"
  using card_deref_inv [OF assms] devices_of_nth [OF assms(1), of "nat i"] assms by auto

lemma write_data_from_inv:
  "gpus_inv g \<Longrightarrow> 0 \<le> i \<Longrightarrow> files w filename = Some c \<Longrightarrow>
   write_data_from filename g i w =
     Some (w\<lparr>files := (files w)(filename \<mapsto> c @ concat (map boot_line (drop (nat i) (devices_of g))))\<rparr>)"
proof (induction filename g i w arbitrary: c rule: write_data_from.induct)
  case (1 filename g i w)
  show ?case
  proof (cases "i < nr_cards g")
    case False
    then have "drop (nat i) (devices_of g) = []"
      using devices_of_length [OF "1.prems"(1)] by simp
    then show ?thesis
      using False "1.prems"(3) by (subst write_data_from.simps) (simp add: fun_upd_idem)
  next
    case True
    let ?d = "devices_of g ! nat i"
    have d: "card_deref g i = Some ?d"
      using card_deref_devices_of [OF "1.prems"(1,2) True] .
    have f: "files (fputs filename (boot_line ?d) w) filename = Some (c @ boot_line ?d)"
      using "1.prems"(3) by (simp add: fputs_def)
    have dr: "drop (nat i) (devices_of g) = ?d # drop (nat (i + 1)) (devices_of g)"
      using True "1.prems"(2) devices_of_length [OF "1.prems"(1)]
      by (simp add: Cons_nth_drop_Suc nat_add_distrib)
    have "write_data_from filename g (i + 1) (fputs filename (boot_line ?d) w) =
      Some ((fputs filename (boot_line ?d) w)\<lparr>files := (files (fputs filename (boot_line ?d) w))
         (filename \<mapsto> (c @ boot_line ?d) @ concat (map boot_line (drop (nat (i + 1)) (devices_of g))))\<rparr>)"
    proof -
      have "0 \<le> i + 1" using "1.prems"(2) by simp
      from "1.IH" [OF True d "1.prems"(1) this f] show ?thesis .
    qed
    then show ?thesis
      using True d dr by (subst write_data_from.simps) (simp add: fputs_def)
  qed
qed

lemma get_vars_boot_line:
  assumes "fits_format d" and "0 \<le> nr_cards g" and "nr_cards g < 10" and "length (cards g) = 10"
  shows "get_vars e (boot_line d) g 7 =
     Some (7, g\<lparr>cards := (cards g)[nat (nr_cards g) :=
        Some (scanned_device (junk e (nr_cards g))
           [vendor_id d, device_id d, domain d, bus d, dev d, func d, boot_vga d])]\<rparr>)"
  using assms(2,3,4)
  by (simp add: get_vars_def run_scanf_boot_line [OF assms(1)] EOF_def card_store_def MAX_NR_CARDS_def)

lemma persisted_scanned:
  "persisted (scanned_device j [vendor_id d, device_id d, domain d, bus d, dev d, func d, boot_vga d])
     = persisted d"
  by (simp add: persisted_def scanned_device_def nth_or_def)

lemma read_data_lines_boot_lines:
  "\<forall>d \<in> set ds. fits_format d \<Longrightarrow> length (cards g) = 10 \<Longrightarrow> nr_cards g = int k \<Longrightarrow>
   k + length ds \<le> 10 \<Longrightarrow>
   \<exists>g'. read_data_lines e (file_chunks 100 (concat (map boot_line ds))) g = Some g' \<and>
      nr_cards g' = int (k + length ds) \<and> length (cards g') = 10 \<and>
      (\<forall>j < k. cards g' ! j = cards g ! j) \<and>
      (\<forall>j < length ds. \<exists>d'. cards g' ! (k + j) = Some d' \<and> persisted d' = persisted (ds ! j))"
proof (induction ds arbitrary: g k)
  case Nil
  then show ?case by (simp add: file_chunks.simps)
next
  case (Cons d ds)
  have fd: "fits_format d" using Cons.prems(1) by simp
  let ?dev = "scanned_device (junk e (nr_cards g))
           [vendor_id d, device_id d, domain d, bus d, dev d, func d, boot_vga d]"
  let ?g1 = "g\<lparr>cards := (cards g)[k := Some ?dev], nr_cards := int k + 1\<rparr>"
  have k: "k < 10" using Cons.prems(4) by simp
  have gv: "get_vars e (boot_line d) g 7 = Some (7, g\<lparr>cards := (cards g)[k := Some ?dev]\<rparr>)"
    using get_vars_boot_line [OF fd, of g e] Cons.prems(2,3) k by simp
  have step: "read_data_lines e (file_chunks 100 (concat (map boot_line (d # ds)))) g =
     read_data_lines e (file_chunks 100 (concat (map boot_line ds))) ?g1"
    using k Cons.prems(3) gv c_str_boot_line(2) [OF fd]
    by (simp add: file_chunks_boot_line [OF fd] c_str_boot_line [OF fd] MAX_NR_CARDS_def)
  obtain g' where g': "read_data_lines e (file_chunks 100 (concat (map boot_line ds))) ?g1 = Some g'"
      "nr_cards g' = int (Suc k + length ds)" "length (cards g') = 10"
      "\<forall>j < Suc k. cards g' ! j = cards ?g1 ! j"
      "\<forall>j < length ds. \<exists>d'. cards g' ! (Suc k + j) = Some d' \<and> persisted d' = persisted (ds ! j)"
    using Cons.IH [of ?g1 "Suc k"] Cons.prems by auto
  have old: "\<forall>j < k. cards g' ! j = cards g ! j"
    using g'(4) by auto
  have new: "\<exists>d'. cards g' ! (k + j) = Some d' \<and> persisted d' = persisted ((d # ds) ! j)"
    if "j < length (d # ds)" for j
  proof (cases j)
    case 0
    have "cards g' ! k = Some ?dev" using g'(4) k Cons.prems(2) by simp
    then show ?thesis using 0 by (simp add: persisted_scanned)
  next
    case (Suc j')
    then show ?thesis using g'(5) that by simp
  qed
  show ?case
    using step g'(1,2,3) old new by auto
qed

lemma gpus_inv_zero: "gpus_inv gpus_zero"
  by (simp add: gpus_inv_def gpus_zero_def MAX_NR_CARDS_def)

lemma read_boot_lines_from_zero:
  assumes "\<forall>d \<in> set ds. fits_format d" and "length ds \<le> 10"
  shows "\<exists>g'. read_data_lines e (file_chunks 100 (concat (map boot_line ds))) gpus_zero = Some g' \<and>
     gpus_inv g' \<and> nr_cards g' = int (length ds) \<and> map persisted (devices_of g') = map persisted ds"
proof -
  obtain g' where g': "read_data_lines e (file_chunks 100 (concat (map boot_line ds))) gpus_zero = Some g'"
      "nr_cards g' = int (0 + length ds)" "length (cards g') = 10"
      "\<forall>j < length ds. \<exists>d'. cards g' ! (0 + j) = Some d' \<and> persisted d' = persisted (ds ! j)"
    using read_data_lines_boot_lines [OF assms(1), of gpus_zero 0 e] assms(2)
    by (auto simp: gpus_zero_def)
  have inv: "gpus_inv g'"
    using g'(2,3,4) assms(2) by (auto simp: gpus_inv_def MAX_NR_CARDS_def)
  have "map persisted (devices_of g') = map persisted ds"
  proof (rule nth_equalityI)
    show "length (map persisted (devices_of g')) = length (map persisted ds)"
      using devices_of_length [OF inv] g'(2) by simp
  next
    fix i assume "i < length (map persisted (devices_of g'))"
    then have i: "i < length ds" using devices_of_length [OF inv] g'(2) by simp
    then have "devices_of g' ! i = the (cards g' ! i)"
      using devices_of_nth [OF inv, of i] g'(2) by simp
    then show "map persisted (devices_of g') ! i = map persisted ds ! i"
      using i g'(4) devices_of_length [OF inv] g'(2) by auto
  qed
  then show ?thesis using g'(1,2) inv by auto
qed


lemma boot_line_wide:
  "boot_line nvidia_wide_domain = ''10de:1140;10000:01:00:0;0'' @ [newline]"
  by (simp add: boot_line_def nvidia_wide_domain_def printf_0x_def printf_d_def printf_ld_def
        digits_of.simps digit_char_def)

lemma scan_wide: "run_scanf boot_format (''10de:1140;10000:01:00:0;0'' @ [newline]) [] = (3, [0x10DE, 0x1140, 0x1000])"
  by (simp add: boot_format_def scan_int_def isspace_def isxdigit_def isdigit_def toupper_def
    width_left_def width_dec_def width_take_def strtoul_value_def digits_value_def digit_val_def Let_def newline_def)


lemma one_slot_inv: "gpus_inv \<lparr>cards = Some d # replicate 9 None, nr_cards = 1\<rparr>"
  by (simp add: gpus_inv_def MAX_NR_CARDS_def)

lemma one_slot_devices: "devices_of \<lparr>cards = Some d # replicate 9 None, nr_cards = 1\<rparr> = [d]"
  by (simp add: devices_of_def)

lemma write_one_slot:
  "can_write e filename \<Longrightarrow>
   write_data_to_file e filename \<lparr>cards = Some d # replicate 9 None, nr_cards = 1\<rparr> w =
     Some (True, w\<lparr>files := (files w)(filename \<mapsto> boot_line d),
                    trace := trace w @ [Ev_call ''write_data_to_file'']\<rparr>)"
  by (simp add: write_data_to_file_def fopen_w_def record_event_def Let_def write_data_from.simps
        card_deref_def MAX_NR_CARDS_def fputs_def)

lemma file_chunks_one_line:
  "newline \<notin> set body \<Longrightarrow> length body < 99 \<Longrightarrow> file_chunks 100 (body @ [newline]) = [body @ [newline]]"
  using fgets_split_line [of body 99 "[]"]
  by (subst file_chunks.simps) (simp add: file_chunks.simps [of _ "[]"])



text \<open>
  Claim C4, as the code has it. An inventory that satisfies the invariant and whose devices
  fit the widths of the format (vendor id, device id and domain below \<^verbatim>\<open>0x10000\<close>, bus and
  slot below \<^verbatim>\<open>0x100\<close>; any function number and boot-vga flag) is written by
  \<^verbatim>\<open>write_data_to_file\<close> to a path that can be opened, and \<^verbatim>\<open>read_data_from_file\<close> reads from
  that file, into an empty inventory, as many devices with the same persisted fields in the
  same order. The connectivity is not compared.
\<close>

theorem state_file_round_trip:
  assumes "gpus_inv g" and "\<forall>d \<in> set (devices_of g). fits_format d"
    and "can_write e filename" and "can_read e filename"
  shows "\<exists>w1 g' w2. write_data_to_file e filename g w = Some (True, w1) \<and>
           read_data_from_file e filename gpus_zero w1 = Some (1, g', w2) \<and>
           gpus_inv g' \<and> nr_cards g' = nr_cards g \<and>
           map persisted (devices_of g') = map persisted (devices_of g)"
proof -
  let ?w0 = "record_event (Ev_call ''write_data_to_file'') w"
  let ?text = "concat (map boot_line (devices_of g))"
  let ?w1 = "?w0\<lparr>files := (files ?w0)(filename \<mapsto> ?text)\<rparr>"
  have "write_data_from filename g 0 (?w0\<lparr>files := (files ?w0)(filename \<mapsto> [])\<rparr>) = Some ?w1"
    using write_data_from_inv [OF assms(1), of 0 "?w0\<lparr>files := (files ?w0)(filename \<mapsto> [])\<rparr>" filename "[]"]
    by simp
  then have wr: "write_data_to_file e filename g w = Some (True, ?w1)"
    using assms(3) by (simp add: write_data_to_file_def fopen_w_def Let_def)
  have len: "length (devices_of g) \<le> 10"
    using devices_of_length [OF assms(1)] assms(1) by (auto simp: gpus_inv_def MAX_NR_CARDS_def)
  obtain g' where g': "read_data_lines e (file_chunks 100 ?text) gpus_zero = Some g'"
     "gpus_inv g'" "nr_cards g' = int (length (devices_of g))"
     "map persisted (devices_of g') = map persisted (devices_of g)"
    using read_boot_lines_from_zero [OF assms(2) len] by blast
  have rd: "read_data_from_file e filename gpus_zero ?w1 = Some (1, g', ?w1)"
    using assms(4) g'(1) by (simp add: read_data_from_file_def fopen_r_def)
  have "nr_cards g' = nr_cards g"
    using g'(3) devices_of_length [OF assms(1)] assms(1) by (simp add: gpus_inv_def)
  then show ?thesis using wr rd g'(2,4) by blast
qed


theorem state_file_round_trip_witness:
  "gpus_inv example_plugged \<and> devices_of example_plugged = [intel_igp] \<and> fits_format intel_igp \<and>
   can_write example_env ''last_gfx_boot'' \<and> can_read example_env ''last_gfx_boot'' \<and>
   (\<exists>w1 g' w2. write_data_to_file example_env ''last_gfx_boot'' example_plugged empty_world = Some (True, w1) \<and>
      read_data_from_file example_env ''last_gfx_boot'' gpus_zero w1 = Some (1, g', w2) \<and>
      map persisted (devices_of g') = [persisted intel_igp])"
proof -
  have p: "gpus_inv example_plugged"
    by (simp add: example_plugged_def one_slot_inv)
  have d: "devices_of example_plugged = [intel_igp]"
    by (simp add: example_plugged_def one_slot_devices)
  have f: "\<forall>d \<in> set (devices_of example_plugged). fits_format d"
    by (simp add: d fits_format_def intel_igp_def)
  have b: "can_write example_env ''last_gfx_boot''" and c: "can_read example_env ''last_gfx_boot''"
    by (simp_all add: example_env_def)
  have i: "fits_format intel_igp"
    by (simp add: fits_format_def intel_igp_def)
  show ?thesis
    using state_file_round_trip [OF p f b c, of empty_world] p i b c d by auto
qed

text \<open>
  The round trip as claim C4 states it, for every inventory of at most ten devices, fails
  for a device in PCI domain \<^verbatim>\<open>0x10000\<close>: the line written is
  \<^verbatim>\<open>10de:1140;10000:01:00:0;0\<close>, \<^verbatim>\<open>%04x\<close> reads four digits of the domain, the colon does
  not match, \<^verbatim>\<open>sscanf\<close> returns 3 and the inventory read back is empty.
\<close>

theorem state_file_round_trip_counterexample:
  "gpus_inv example_wide_domain \<and> nr_cards example_wide_domain \<le> MAX_NR_CARDS \<and>
   fst (the (write_data_to_file example_env ''last_gfx_boot'' example_wide_domain empty_world)) = True \<and>
   fst (the (read_data_from_file example_env ''last_gfx_boot'' gpus_zero
      (snd (the (write_data_to_file example_env ''last_gfx_boot'' example_wide_domain empty_world))))) = 1 \<and>
   nr_cards (fst (snd (the (read_data_from_file example_env ''last_gfx_boot'' gpus_zero
      (snd (the (write_data_to_file example_env ''last_gfx_boot'' example_wide_domain empty_world))))))) = 0"
proof -
  have w: "write_data_to_file example_env ''last_gfx_boot'' example_wide_domain empty_world =
     Some (True, empty_world\<lparr>files := (files empty_world)(''last_gfx_boot'' \<mapsto> boot_line nvidia_wide_domain),
                    trace := trace empty_world @ [Ev_call ''write_data_to_file'']\<rparr>)"
    unfolding example_wide_domain_def by (rule write_one_slot) (simp add: example_env_def)
  have c: "file_chunks 100 (boot_line nvidia_wide_domain) = [boot_line nvidia_wide_domain]"
    unfolding boot_line_wide by (rule file_chunks_one_line) (simp_all add: newline_def)
  have s: "c_str (boot_line nvidia_wide_domain) = boot_line nvidia_wide_domain"
    unfolding boot_line_wide by (simp add: c_str_def NUL_def newline_def)
  have g: "get_vars example_env (boot_line nvidia_wide_domain) gpus_zero 7 = Some (3, gpus_zero)"
    unfolding boot_line_wide using scan_wide
    by (simp add: get_vars_def EOF_def card_store_def gpus_zero_def MAX_NR_CARDS_def eval_nat_numeral)
  have r: "read_data_lines example_env (file_chunks 100 (boot_line nvidia_wide_domain)) gpus_zero =
      Some gpus_zero"
  proof -
    have "nr_cards gpus_zero < MAX_NR_CARDS" by (simp add: gpus_zero_def MAX_NR_CARDS_def)
    moreover have "0 < length (boot_line nvidia_wide_domain)" by (simp add: boot_line_wide)
    ultimately show ?thesis unfolding c by (simp add: s g)
  qed
  have cr: "can_read example_env ''last_gfx_boot''" by (simp add: example_env_def)
  have rd: "read_data_from_file example_env ''last_gfx_boot'' gpus_zero
      (empty_world\<lparr>files := (files empty_world)(''last_gfx_boot'' \<mapsto> boot_line nvidia_wide_domain),
                    trace := trace empty_world @ [Ev_call ''write_data_to_file'']\<rparr>) =
     Some (1, gpus_zero, empty_world\<lparr>files := (files empty_world)(''last_gfx_boot'' \<mapsto> boot_line nvidia_wide_domain),
                    trace := trace empty_world @ [Ev_call ''write_data_to_file'']\<rparr>)"
    by (simp add: read_data_from_file_def fopen_r_def cr r)
  have i: "gpus_inv example_wide_domain" "nr_cards example_wide_domain \<le> MAX_NR_CARDS"
    by (simp_all add: example_wide_domain_def one_slot_inv MAX_NR_CARDS_def)
  have z: "nr_cards gpus_zero = 0" by (simp add: gpus_zero_def)
  show ?thesis
    by (simp add: w rd i z)
qed




section \<open>Unloading the NVIDIA modules\<close>

lemma calls_run_system [simp]: "calls k (snd (run_system e cmd w)) = calls k w"
  by (simp add: calls_def run_system_def split: prod.splits)

lemma calls_act [simp]: "calls k (snd (act_upon_module_with_params e cfg m mode ps w)) = calls k w"
  by (simp add: act_upon_module_with_params_def Let_def case_prod_beta)

lemma calls_unload_module [simp]: "calls k (snd (unload_module e cfg m w)) = calls k w"
  by (simp add: unload_module_def)

lemma calls_record [simp]:
  "calls k (record_event (Ev_call n) w) = calls k w + (if k = n then 1 else 0)"
  "calls k (record_event (Ev_unlink p) w) = calls k w"
  by (simp_all add: calls_def record_event_def)

lemma calls_unload_nvidia [simp]:
  "calls k (snd (unload_nvidia e cfg w)) = calls k w + (if k = ''unload_nvidia'' then 1 else 0)"
  by (simp add: unload_nvidia_def Let_def)

lemma calls_kill [simp]:
  "calls k (snd (kill_main_display_session e cfg w)) =
     calls k w + (if k = ''kill_main_display_session'' then 1 else 0)"
  by (simp add: kill_main_display_session_def Let_def case_prod_beta)

lemma trace_fopen_w: "fopen_w e p w = Some w1 \<Longrightarrow> trace w1 = trace w"
  by (auto simp: fopen_w_def split: if_splits)

lemma trace_fputs [simp]: "trace (fputs p t w) = trace w"
  by (simp add: fputs_def)

lemma calls_manage [simp]: "calls k (snd (manage_power_management e d b w)) = calls k w"
  by (auto simp: manage_power_management_def calls_def dest: trace_fopen_w split: option.splits)

lemma calls_enable_pm [simp]:
  "calls k (enable_power_management e d w) =
     calls k w + (if k = ''enable_power_management'' then 1 else 0)"
  by (simp add: enable_power_management_def)

lemma calls_remove [simp]: "calls k (snd (remove_xorg_d_custom_file e cfg n w)) = calls k w"
  by (simp add: remove_xorg_d_custom_file_def Let_def calls_def record_event_def)


lemma unload_nvidia_dry_run:
  "dry_run cfg \<Longrightarrow> unload_nvidia e cfg w = (True, record_event (Ev_call ''unload_nvidia'') w)"
  by (simp add: unload_nvidia_def unload_module_def act_upon_module_with_params_def Let_def)

lemma unload_module_real:
  "\<not> dry_run cfg \<Longrightarrow> length m \<le> 287 \<Longrightarrow>
   unload_module e cfg m w =
     (fst (command e (''/sbin/rmmod '' @ m) (modules w)) = 0,
      w\<lparr>modules := snd (command e (''/sbin/rmmod '' @ m) (modules w)),
        trace := trace w @ [Ev_system (''/sbin/rmmod '' @ m)]\<rparr>)"
  by (simp add: unload_module_def act_upon_module_with_params_def Let_def snprintf_def
        run_system_def case_prod_beta)

lemma unload_nvidia_eq:
  "unload_nvidia e cfg w =
     (if dry_run cfg then (True, record_event (Ev_call ''unload_nvidia'') w)
      else
        (let m1 = snd (command e ''/sbin/rmmod nvidia-drm'' (modules w));
             m2 = snd (command e ''/sbin/rmmod nvidia-uvm'' m1);
             m3 = snd (command e ''/sbin/rmmod nvidia-modeset'' m2)
         in (fst (command e ''/sbin/rmmod nvidia'' m3) = 0,
             w\<lparr>modules := snd (command e ''/sbin/rmmod nvidia'' m3),
               trace := trace w @
                 [Ev_call ''unload_nvidia'', Ev_system ''/sbin/rmmod nvidia-drm'',
                  Ev_system ''/sbin/rmmod nvidia-uvm'', Ev_system ''/sbin/rmmod nvidia-modeset'',
                  Ev_system ''/sbin/rmmod nvidia'']\<rparr>)))"
proof (cases "dry_run cfg")
  case True
  then show ?thesis by (simp add: unload_nvidia_dry_run)
next
  case False
  show ?thesis
    using False
    by (simp add: unload_nvidia_def Let_def unload_module_real [OF False] record_event_def)
qed


text \<open>
  Claim C10. \<^verbatim>\<open>unload_nvidia\<close> runs \<^verbatim>\<open>rmmod\<close> on \<^verbatim>\<open>nvidia-drm\<close>, \<^verbatim>\<open>nvidia-uvm\<close> and
  \<^verbatim>\<open>nvidia-modeset\<close>, in this order, and then on \<^verbatim>\<open>nvidia\<close>; its result is the result of
  the last command alone, whatever the status of the first three. With \<^verbatim>\<open>dry_run\<close> nothing
  is run and the result is true.
\<close>

theorem unload_nvidia_order_and_result:
  "unload_nvidia e cfg w =
     (if dry_run cfg then (True, record_event (Ev_call ''unload_nvidia'') w)
      else
        (let m1 = snd (command e ''/sbin/rmmod nvidia-drm'' (modules w));
             m2 = snd (command e ''/sbin/rmmod nvidia-uvm'' m1);
             m3 = snd (command e ''/sbin/rmmod nvidia-modeset'' m2)
         in (fst (command e ''/sbin/rmmod nvidia'' m3) = 0,
             w\<lparr>modules := snd (command e ''/sbin/rmmod nvidia'' m3),
               trace := trace w @
                 [Ev_call ''unload_nvidia'', Ev_system ''/sbin/rmmod nvidia-drm'',
                  Ev_system ''/sbin/rmmod nvidia-uvm'', Ev_system ''/sbin/rmmod nvidia-modeset'',
                  Ev_system ''/sbin/rmmod nvidia'']\<rparr>)))"
  by (rule unload_nvidia_eq)

lemma files_run_system [simp]: "files (snd (run_system e cmd w)) = files w"
  by (simp add: run_system_def case_prod_beta)

lemma files_act [simp]: "files (snd (act_upon_module_with_params e cfg m mode ps w)) = files w"
  by (simp add: act_upon_module_with_params_def Let_def case_prod_beta)

lemma files_unload_nvidia [simp]: "files (snd (unload_nvidia e cfg w)) = files w"
  by (simp add: unload_nvidia_def Let_def unload_module_def record_event_def)

lemma files_kill [simp]: "files (snd (kill_main_display_session e cfg w)) = files w"
  by (simp add: kill_main_display_session_def Let_def case_prod_beta record_event_def)

lemma files_enable_pm:
  "files (enable_power_management e d w) =
     (if can_write e (power_control_path d)
      then (files w)(power_control_path d \<mapsto> ''auto'' @ [newline]) else files w)"
  by (auto simp: enable_power_management_def manage_power_management_def fopen_w_def fputs_def
        record_event_def)

lemma modules_enable_pm [simp]: "modules (enable_power_management e d w) = modules w"
  by (auto simp: enable_power_management_def manage_power_management_def fopen_w_def fputs_def
        record_event_def)

lemma unload_again_retry:
  assumes "unload_again e cfg d tries w = Some (r, w')" and "tries \<noteq> 0"
  shows "calls ''kill_main_display_session'' w' = calls ''kill_main_display_session'' w \<and>
         calls ''unload_nvidia'' w' \<le> calls ''unload_nvidia'' w + 1 \<and>
         calls ''enable_power_management'' w' =
           calls ''enable_power_management'' w + (if r then 1 else 0) \<and>
         (\<forall>p. p \<noteq> power_control_path d \<longrightarrow> files w' p = files w p) \<and>
         (r \<longrightarrow> can_write e (power_control_path d) \<longrightarrow>
            files w' (power_control_path d) = Some (''auto'' @ [newline])) \<and>
         (\<not> r \<longrightarrow> is_module_loaded ''nvidia'' w' = Some True \<and>
            calls ''unload_nvidia'' w' = calls ''unload_nvidia'' w + 1 \<and> files w' = files w)"
  using assms
  by (subst (asm) unload_again.simps)
     (auto simp: files_enable_pm case_prod_beta split: option.splits bool.splits if_splits)


lemma unload_again_first:
  assumes "unload_again e cfg d 0 w = Some (r, w')"
  shows "calls ''kill_main_display_session'' w' \<le> calls ''kill_main_display_session'' w + 1 \<and>
         calls ''unload_nvidia'' w' \<le> calls ''unload_nvidia'' w + 2 \<and>
         calls ''enable_power_management'' w' =
           calls ''enable_power_management'' w + (if r then 1 else 0) \<and>
         (\<forall>p. p \<noteq> power_control_path d \<longrightarrow> files w' p = files w p) \<and>
         (r \<longrightarrow> can_write e (power_control_path d) \<longrightarrow>
            files w' (power_control_path d) = Some (''auto'' @ [newline])) \<and>
         (\<not> r \<longrightarrow> is_module_loaded ''nvidia'' w' = Some True \<and>
            calls ''unload_nvidia'' w' = calls ''unload_nvidia'' w + 2 \<and>
            calls ''kill_main_display_session'' w' = calls ''kill_main_display_session'' w + 1 \<and>
            files w' = files w)"
proof -
  let ?w1 = "snd (unload_nvidia e cfg w)"
  let ?w2 = "snd (kill_main_display_session e cfg ?w1)"
  show ?thesis
  proof (cases "is_module_loaded ''nvidia'' w = Some True \<and> \<not> fst (unload_nvidia e cfg w) \<and>
      is_module_loaded ''nvidia'' ?w1 = Some True \<and> fst (kill_main_display_session e cfg ?w1)")
    case True
    then have "unload_again e cfg d 1 ?w2 = Some (r, w')"
      using assms by (subst (asm) unload_again.simps) (simp add: case_prod_beta)
    from unload_again_retry [OF this] show ?thesis by auto
  next
    case False
    then show ?thesis
      using assms
      by (subst (asm) unload_again.simps)
         (auto simp: files_enable_pm case_prod_beta split: option.splits bool.splits if_splits)
  qed
qed

lemma unload_nvidia_fails:
  "\<not> dry_run cfg \<Longrightarrow> unload_always_fails e \<Longrightarrow> \<not> fst (unload_nvidia e cfg w)"
  by (simp add: unload_nvidia_eq Let_def unload_always_fails_def)

lemma unload_nvidia_stays:
  assumes "nvidia_stays_loaded e" and "is_module_loaded ''nvidia'' w = Some True"
  shows "is_module_loaded ''nvidia'' (snd (unload_nvidia e cfg w)) = Some True"
proof -
  have st: "module_listed ''nvidia'' (snd (command e c m)) = Some True"
    if "module_listed ''nvidia'' m = Some True" for c m
    using assms(1) that by (simp add: nvidia_stays_loaded_def)
  show ?thesis
    using assms(2)
    by (auto simp: unload_nvidia_eq Let_def is_module_loaded_def record_event_def intro!: st)
qed

lemma kill_succeeds:
  "\<not> dry_run cfg \<Longrightarrow> session_kill_succeeds e \<Longrightarrow> fst (kill_main_display_session e cfg w)"
  by (simp add: kill_main_display_session_def session_kill_succeeds_def Let_def run_system_def
        case_prod_beta record_event_def)

lemma kill_stays:
  assumes "nvidia_stays_loaded e" and "is_module_loaded ''nvidia'' w = Some True"
  shows "is_module_loaded ''nvidia'' (snd (kill_main_display_session e cfg w)) = Some True"
  using assms
  by (auto simp: kill_main_display_session_def Let_def run_system_def case_prod_beta
        record_event_def is_module_loaded_def nvidia_stays_loaded_def)

lemma unload_again_gives_up:
  assumes "\<not> dry_run cfg" and "unload_always_fails e" and "nvidia_stays_loaded e"
    and "session_kill_succeeds e" and "is_module_loaded ''nvidia'' w = Some True"
  shows "unload_again e cfg d 0 w =
     Some (False, snd (unload_nvidia e cfg
        (snd (kill_main_display_session e cfg (snd (unload_nvidia e cfg w))))))"
proof -
  let ?w1 = "snd (unload_nvidia e cfg w)"
  let ?w2 = "snd (kill_main_display_session e cfg ?w1)"
  let ?w3 = "snd (unload_nvidia e cfg ?w2)"
  have l1: "is_module_loaded ''nvidia'' ?w1 = Some True"
    using unload_nvidia_stays [OF assms(3,5)] .
  have l2: "is_module_loaded ''nvidia'' ?w2 = Some True"
    using kill_stays [OF assms(3) l1] .
  have l3: "is_module_loaded ''nvidia'' ?w3 = Some True"
    using unload_nvidia_stays [OF assms(3) l2] .
  have second: "unload_again e cfg d 1 ?w2 = Some (False, ?w3)"
    using l2 l3 unload_nvidia_fails [OF assms(1,2), of ?w2]
    by (subst unload_again.simps) (simp add: case_prod_beta)
  show ?thesis
    using assms(5) l1 unload_nvidia_fails [OF assms(1,2), of w] kill_succeeds [OF assms(1,4), of ?w1]
      second
    by (subst unload_again.simps) (simp add: case_prod_beta)
qed

section \<open>The branch for the mode OFF\<close>







lemma calls_remove_fragments [simp]:
  "calls k (snd (remove_prime_outputclass e cfg w)) = calls k w"
  "calls k (snd (remove_offload_serverlayout e cfg w)) = calls k w"
  by (simp_all add: remove_prime_outputclass_def remove_offload_serverlayout_def)

lemma modules_remove_fragments [simp]:
  "modules (snd (remove_prime_outputclass e cfg w)) = modules w"
  "modules (snd (remove_offload_serverlayout e cfg w)) = modules w"
  by (simp_all add: remove_prime_outputclass_def remove_offload_serverlayout_def
        remove_xorg_d_custom_file_def Let_def record_event_def)

lemma nvidia_loaded_example: "is_module_loaded ''nvidia'' nvidia_loaded_world = Some True"
proof -
  have "file_chunks 4096 (''nvidia 1 0 - Live'' @ [newline]) = [''nvidia 1 0 - Live'' @ [newline]]"
    using fgets_split_line [of "''nvidia 1 0 - Live''" 4095 "[]"]
    by (subst file_chunks.simps) (simp add: newline_def file_chunks.simps [of _ "[]"])
  then show ?thesis
    by (simp add: is_module_loaded_def module_listed_def nvidia_loaded_world_def c_str_def
          NUL_def newline_def strtok_first_def is_blank_def)
qed

lemma busy_env_facts:
  "unload_always_fails busy_env" "nvidia_stays_loaded busy_env"
  "\<not> fst (kill_main_display_session busy_env example_config w)"
  by (simp_all add: unload_always_fails_def nvidia_stays_loaded_def busy_env_def example_env_def
        kill_main_display_session_def Let_def example_config_def)

lemma busy_killable_env_facts:
  "unload_always_fails busy_killable_env" "nvidia_stays_loaded busy_killable_env"
  "session_kill_succeeds busy_killable_env"
  by (simp_all add: unload_always_fails_def nvidia_stays_loaded_def busy_killable_env_def
        example_env_def session_kill_succeeds_def starts_with_def snprintf_def)

lemma example_config_real: "\<not> dry_run example_config"
  by (simp add: example_config_def)

lemma unload_again_kill_fails:
  assumes "\<not> dry_run cfg" and "unload_always_fails e" and "nvidia_stays_loaded e"
    and "is_module_loaded ''nvidia'' w = Some True"
    and "\<not> fst (kill_main_display_session e cfg (snd (unload_nvidia e cfg w)))"
  shows "unload_again e cfg d 0 w =
     Some (True, enable_power_management e d
        (snd (kill_main_display_session e cfg (snd (unload_nvidia e cfg w)))))"
  using assms(4,5) unload_nvidia_stays [OF assms(3,4)] unload_nvidia_fails [OF assms(1,2), of w]
  by (subst unload_again.simps) (simp add: case_prod_beta)


lemma prime_off_start:
  "prime_off e cfg d w =
     unload_again e cfg d 0 (snd (remove_offload_serverlayout e cfg (snd (remove_prime_outputclass e cfg w))))"
  by (simp add: prime_off_def Let_def)

lemma removed_loaded:
  "is_module_loaded ''nvidia'' (snd (remove_offload_serverlayout e cfg (snd (remove_prime_outputclass e cfg w))))
     = is_module_loaded ''nvidia'' w"
  by (simp add: is_module_loaded_def)




text \<open>
  Claim C3, as the code has it. In every run of the branch for the mode \<^verbatim>\<open>OFF\<close>,
  \<^verbatim>\<open>kill_main_display_session\<close> is entered at most once and \<^verbatim>\<open>unload_nvidia\<close> at most
  twice. When the unload always fails, the module stays loaded and the session is killed,
  the branch returns false after exactly two unloads and one kill, with the module loaded.
\<close>

theorem reclaim_protocol_bounded:
  "(prime_off e cfg d w = Some (r, w') \<longrightarrow>
      calls ''kill_main_display_session'' w' \<le> calls ''kill_main_display_session'' w + 1 \<and>
      calls ''unload_nvidia'' w' \<le> calls ''unload_nvidia'' w + 2) \<and>
   (\<not> dry_run cfg \<and> unload_always_fails e \<and> nvidia_stays_loaded e \<and> session_kill_succeeds e \<and>
    is_module_loaded ''nvidia'' w = Some True \<longrightarrow>
      (\<exists>w''. prime_off e cfg d w = Some (False, w'') \<and>
         calls ''unload_nvidia'' w'' = calls ''unload_nvidia'' w + 2 \<and>
         calls ''kill_main_display_session'' w'' = calls ''kill_main_display_session'' w + 1 \<and>
         is_module_loaded ''nvidia'' w'' = Some True))"
proof (intro conjI impI)
  let ?w1 = "snd (remove_prime_outputclass e cfg w)"
  let ?w2 = "snd (remove_offload_serverlayout e cfg ?w1)"
  {
    assume "prime_off e cfg d w = Some (r, w')"
    then have u: "unload_again e cfg d 0 ?w2 = Some (r, w')"
      by (simp add: prime_off_def Let_def)
    from unload_again_first [OF u]
    show "calls ''kill_main_display_session'' w' \<le> calls ''kill_main_display_session'' w + 1"
      and "calls ''unload_nvidia'' w' \<le> calls ''unload_nvidia'' w + 2"
      by simp_all
  }
  assume h: "\<not> dry_run cfg \<and> unload_always_fails e \<and> nvidia_stays_loaded e \<and>
    session_kill_succeeds e \<and> is_module_loaded ''nvidia'' w = Some True"
  then have l: "is_module_loaded ''nvidia'' ?w2 = Some True"
    by (simp add: is_module_loaded_def)
  let ?w5 = "snd (unload_nvidia e cfg (snd (kill_main_display_session e cfg (snd (unload_nvidia e cfg ?w2)))))"
  have g: "unload_again e cfg d 0 ?w2 = Some (False, ?w5)"
    using unload_again_gives_up [of cfg e ?w2 d] h l by blast
  then have p: "prime_off e cfg d w = Some (False, ?w5)"
    by (simp add: prime_off_def Let_def)
  from unload_again_first [OF g] p
  show "\<exists>w''. prime_off e cfg d w = Some (False, w'') \<and>
         calls ''unload_nvidia'' w'' = calls ''unload_nvidia'' w + 2 \<and>
         calls ''kill_main_display_session'' w'' = calls ''kill_main_display_session'' w + 1 \<and>
         is_module_loaded ''nvidia'' w'' = Some True"
    by simp
qed

theorem reclaim_protocol_bounded_witness:
  "\<not> dry_run example_config \<and> unload_always_fails busy_killable_env \<and>
   nvidia_stays_loaded busy_killable_env \<and> session_kill_succeeds busy_killable_env \<and>
   is_module_loaded ''nvidia'' nvidia_loaded_world = Some True \<and>
   (\<exists>w''. prime_off busy_killable_env example_config nvidia_dgpu nvidia_loaded_world = Some (False, w'') \<and>
      calls ''unload_nvidia'' w'' = 2 \<and> calls ''kill_main_display_session'' w'' = 1 \<and>
      calls ''kill_main_display_session'' w'' \<le> calls ''kill_main_display_session'' nvidia_loaded_world + 1)"
proof -
  have z: "calls k nvidia_loaded_world = 0" for k
    by (simp add: calls_def nvidia_loaded_world_def)
  have h: "\<not> dry_run example_config \<and> unload_always_fails busy_killable_env \<and>
     nvidia_stays_loaded busy_killable_env \<and> session_kill_succeeds busy_killable_env \<and>
     is_module_loaded ''nvidia'' nvidia_loaded_world = Some True"
    using example_config_real busy_killable_env_facts nvidia_loaded_example by simp
  have "\<exists>w''. prime_off busy_killable_env example_config nvidia_dgpu nvidia_loaded_world = Some (False, w'') \<and>
         calls ''unload_nvidia'' w'' = calls ''unload_nvidia'' nvidia_loaded_world + 2 \<and>
         calls ''kill_main_display_session'' w'' = calls ''kill_main_display_session'' nvidia_loaded_world + 1 \<and>
         is_module_loaded ''nvidia'' w'' = Some True"
    using reclaim_protocol_bounded [of busy_killable_env example_config nvidia_dgpu nvidia_loaded_world
        False nvidia_loaded_world] h by blast
  then obtain w'' where w'': "prime_off busy_killable_env example_config nvidia_dgpu nvidia_loaded_world = Some (False, w'')"
      "calls ''unload_nvidia'' w'' = 2" "calls ''kill_main_display_session'' w'' = 1"
    by (auto simp: z)
  have "calls ''kill_main_display_session'' w'' \<le> calls ''kill_main_display_session'' nvidia_loaded_world + 1"
    using reclaim_protocol_bounded [of busy_killable_env example_config nvidia_dgpu nvidia_loaded_world
        False w''] w''(1) by blast
  then show ?thesis using h w'' by blast
qed

text \<open>
  Claim C3 has the terminal failure reported whenever the unload always fails. When no
  session of \<^verbatim>\<open>gdm\<close> is found, \<^verbatim>\<open>kill_main_display_session\<close> returns false, there is no
  second attempt, and the branch returns true after the one failed unload.
\<close>

theorem reclaim_protocol_bounded_counterexample:
  "\<not> dry_run example_config \<and> unload_always_fails busy_env \<and> nvidia_stays_loaded busy_env \<and>
   is_module_loaded ''nvidia'' nvidia_loaded_world = Some True \<and>
   map_option fst (prime_off busy_env example_config nvidia_dgpu nvidia_loaded_world) = Some True \<and>
   calls ''unload_nvidia''
     (snd (the (prime_off busy_env example_config nvidia_dgpu nvidia_loaded_world))) = 1"
proof -
  let ?w2 = "snd (remove_offload_serverlayout busy_env example_config
     (snd (remove_prime_outputclass busy_env example_config nvidia_loaded_world)))"
  have l: "is_module_loaded ''nvidia'' ?w2 = Some True"
    by (simp add: removed_loaded nvidia_loaded_example)
  have z: "calls k nvidia_loaded_world = 0" for k
    by (simp add: calls_def nvidia_loaded_world_def)
  have "prime_off busy_env example_config nvidia_dgpu nvidia_loaded_world =
     Some (True, enable_power_management busy_env nvidia_dgpu
        (snd (kill_main_display_session busy_env example_config
           (snd (unload_nvidia busy_env example_config ?w2)))))"
    unfolding prime_off_start
    by (rule unload_again_kill_fails [OF example_config_real busy_env_facts(1,2) l busy_env_facts(3)])
  then show ?thesis
    using example_config_real busy_env_facts(1,2) nvidia_loaded_example
    by (simp add: z)
qed

section \<open>The PRIME settings file\<close>

lemma istr_match_prefix: "istr_match s p \<longleftrightarrow> prefix (map toupper p) (map toupper s)"
  by (induction s p rule: istr_match.induct) auto

lemma istrstr_sublist: "istrstr s p \<longleftrightarrow> contains_nocase s p"
proof (induction s)
  case Nil
  then show ?case by (simp add: contains_nocase_def)
next
  case (Cons c s)
  show ?case
  proof (cases p)
    case Nil
    then show ?thesis by (simp add: contains_nocase_def)
  next
    case (Cons q qs)
    have "istrstr (c # s) p \<longleftrightarrow> istr_match (c # s) p \<or> istrstr s p"
      using Cons by auto
    also have "\<dots> \<longleftrightarrow> prefix (map toupper p) (map toupper (c # s)) \<or>
        sublist (map toupper p) (map toupper s)"
      using Cons.IH by (simp add: istr_match_prefix contains_nocase_def)
    also have "\<dots> \<longleftrightarrow> sublist (map toupper p) (map toupper (c # s))"
      by (simp add: sublist_Cons_right)
    finally show ?thesis by (simp add: contains_nocase_def)
  qed
qed

lemma get_prime_action_eq:
  "get_prime_action e path w =
     (case fopen_r e path w of
        None \<Rightarrow> OFF
      | Some text \<Rightarrow>
          (case file_chunks 100 text of
             [] \<Rightarrow> OFF
           | line # rest \<Rightarrow>
               if contains_nocase (c_str line) ''on-demand'' then ONDEMAND
               else if contains_nocase (c_str line) ''on'' then ON
               else OFF))"
  by (simp add: get_prime_action_def istrstr_sublist split: option.splits list.splits)

lemma get_prime_action_on_line:
  assumes "can_read e path"
  shows "get_prime_action e path (w\<lparr>files := (files w)(path \<mapsto> ''on'' @ [newline])\<rparr>) = ON"
proof -
  have "file_chunks 100 (''on'' @ [newline]) = [''on'' @ [newline]]"
    by (rule file_chunks_one_line) (simp_all add: newline_def)
  then show ?thesis
    using assms
    by (simp add: get_prime_action_def fopen_r_def c_str_def NUL_def newline_def toupper_def)
qed

lemma settings_first_line:
  assumes "newline \<notin> set body" "length body < 99" "NUL \<notin> set body"
  shows "get_prime_action example_env ''/etc/prime-discrete'' (settings_world (body @ [newline])) =
     (if istrstr (body @ [newline]) ''on-demand'' then ONDEMAND
      else if istrstr (body @ [newline]) ''on'' then ON else OFF)"
proof -
  have "c_str (body @ [newline]) = body @ [newline]"
    using assms(3) by (auto simp: c_str_def NUL_def newline_def takeWhile_eq_all_conv [THEN iffD2])
  then show ?thesis
    by (simp add: get_prime_action_def fopen_r_def example_env_def settings_world_def
          file_chunks_one_line [OF assms(1,2)])
qed

text \<open>
  Claim C7, as the code has it. \<^verbatim>\<open>get_prime_action\<close> looks at the first line that \<^verbatim>\<open>fgets\<close>
  gives (at most 99 characters): the mode is \<^verbatim>\<open>ONDEMAND\<close> when the line contains
  \<^verbatim>\<open>on-demand\<close> in any case of the letters, otherwise \<^verbatim>\<open>ON\<close> when it contains \<^verbatim>\<open>on\<close> in any
  case, otherwise \<^verbatim>\<open>OFF\<close>, as it is when the file cannot be opened or gives no line.
  \<^verbatim>\<open>enable_prime\<close> writes \<^verbatim>\<open>on\<close> and a newline to a settings file that is absent or
  empty before it reads the mode, which then is \<^verbatim>\<open>ON\<close> if the file can be read; when the
  file cannot be created it returns false and does nothing.
\<close>

theorem prime_settings_mode:
  "get_prime_action e path w =
     (case fopen_r e path w of
        None \<Rightarrow> OFF
      | Some text \<Rightarrow>
          (case file_chunks 100 text of
             [] \<Rightarrow> OFF
           | line # rest \<Rightarrow>
               if contains_nocase (c_str line) ''on-demand'' then ONDEMAND
               else if contains_nocase (c_str line) ''on'' then ON
               else OFF)) \<and>
   (\<not> exists_not_empty path w \<and> can_write e path \<longrightarrow>
      enable_prime e cfg path d w =
        prime_mode_branch e cfg path d (w\<lparr>files := (files w)(path \<mapsto> ''on'' @ [newline])\<rparr>) \<and>
      (can_read e path \<longrightarrow>
         get_prime_action e path (w\<lparr>files := (files w)(path \<mapsto> ''on'' @ [newline])\<rparr>) = ON)) \<and>
   (\<not> exists_not_empty path w \<and> \<not> can_write e path \<longrightarrow>
      enable_prime e cfg path d w = Some (False, w)) \<and>
   (exists_not_empty path w \<longrightarrow> enable_prime e cfg path d w = prime_mode_branch e cfg path d w)"
  using get_prime_action_eq [of e path w] get_prime_action_on_line [of e path w]
  by (auto simp: enable_prime_def create_prime_settings_def fopen_w_def fputs_def)

theorem prime_settings_mode_witness:
  "\<not> exists_not_empty ''/etc/prime-discrete'' empty_world \<and>
   can_write example_env ''/etc/prime-discrete'' \<and> can_read example_env ''/etc/prime-discrete'' \<and>
   enable_prime example_env example_config ''/etc/prime-discrete'' nvidia_dgpu empty_world =
     prime_mode_branch example_env example_config ''/etc/prime-discrete'' nvidia_dgpu
       (empty_world\<lparr>files := (files empty_world)(''/etc/prime-discrete'' \<mapsto> ''on'' @ [newline])\<rparr>) \<and>
   get_prime_action example_env ''/etc/prime-discrete''
       (empty_world\<lparr>files := (files empty_world)(''/etc/prime-discrete'' \<mapsto> ''on'' @ [newline])\<rparr>) = ON \<and>
   exists_not_empty ''/etc/prime-discrete'' (settings_world (''on-demand'' @ [newline])) \<and>
   get_prime_action example_env ''/etc/prime-discrete'' (settings_world (''on-demand'' @ [newline])) = ONDEMAND \<and>
   get_prime_action example_env ''/etc/prime-discrete'' (settings_world (''off'' @ [newline])) = OFF \<and>
   enable_prime read_only_env example_config ''/etc/prime-discrete'' nvidia_dgpu empty_world =
     Some (False, empty_world)"
proof -
  have a: "\<not> exists_not_empty ''/etc/prime-discrete'' empty_world"
    by (simp add: exists_not_empty_def empty_world_def)
  have b: "can_write example_env ''/etc/prime-discrete''" "can_read example_env ''/etc/prime-discrete''"
    "\<not> can_write read_only_env ''/etc/prime-discrete''"
    by (simp_all add: example_env_def read_only_env_def)
  have c: "exists_not_empty ''/etc/prime-discrete'' (settings_world (''on-demand'' @ [newline]))"
    by (simp add: exists_not_empty_def settings_world_def)
  have d: "get_prime_action example_env ''/etc/prime-discrete'' (settings_world (''on-demand'' @ [newline])) = ONDEMAND"
    by (subst settings_first_line) (simp_all add: newline_def NUL_def toupper_def)
  have f: "get_prime_action example_env ''/etc/prime-discrete'' (settings_world (''off'' @ [newline])) = OFF"
    by (subst settings_first_line) (simp_all add: newline_def NUL_def toupper_def)
  show ?thesis
    using prime_settings_mode [of example_env "''/etc/prime-discrete''" empty_world example_config nvidia_dgpu]
      prime_settings_mode [of read_only_env "''/etc/prime-discrete''" empty_world example_config nvidia_dgpu]
      a b c d f
    by simp
qed

text \<open>
  Claim C7 gives \<^verbatim>\<open>OFF\<close> to every content other than \<^verbatim>\<open>on\<close> and \<^verbatim>\<open>on-demand\<close>. The line
  \<^verbatim>\<open>none\<close> contains \<^verbatim>\<open>on\<close>, and its mode is \<^verbatim>\<open>ON\<close>.
\<close>

theorem prime_settings_mode_counterexample:
  "get_prime_action example_env ''/etc/prime-discrete'' (settings_world (''none'' @ [newline])) = ON"
proof -
  have "get_prime_action example_env ''/etc/prime-discrete'' (settings_world (''none'' @ [newline])) =
     (if istrstr (''none'' @ [newline]) ''on-demand'' then ONDEMAND
      else if istrstr (''none'' @ [newline]) ''on'' then ON else OFF)"
    by (rule settings_first_line) (simp_all add: newline_def NUL_def)
  then show ?thesis by (simp add: toupper_def newline_def)
qed

end
